theory Spec2Isabelle
  imports
    Main
    "HOL-Library.Multiset"
    "HOL-Library.Sublist"
    "HOL-Library.Char_ord"
    "HOL-Library.List_Lexorder"
begin

section \<open>The embedded-dependencies webpack plugin\<close>

text \<open>
  A shallow embedding of \<^verbatim>\<open>EmbeddedDependenciesWebpackPlugin\<close>: the plugin records, for
  every module webpack resolves, the package the module belongs to (Discovery, the
  \<^verbatim>\<open>normalModuleFactory.hooks.module\<close> tap), then, in the \<^verbatim>\<open>processAssets\<close> tap, reads
  each package's license file (Enrichment), sorts the records by name and emits them as
  assets (Reporting).

  JavaScript values are modelled as follows: a string is a \<open>string\<close>; a field that may be
  \<^verbatim>\<open>undefined\<close> is an \<open>option\<close>; a thrown value is a \<open>thrown\<close>, and a call that may throw
  returns \<open>thrown + 'a\<close>; the \<^verbatim>\<open>Map\<close> of third-party packages is an association list in
  insertion order; the mutable \<^verbatim>\<open>compilation\<close> is a record passed through and returned;
  the callbacks that run concurrently are ordered by the times at which they settle.
\<close>

subsection \<open>JavaScript primitives\<close>

text \<open>Truthiness of \<^verbatim>\<open>string | undefined\<close>: the empty string and \<^verbatim>\<open>undefined\<close> are falsy.\<close>

fun truthy :: "string option \<Rightarrow> bool" where
  "truthy None = False"
| "truthy (Some s) = (s \<noteq> [])"

text \<open>\<^verbatim>\<open>a || b\<close> on \<^verbatim>\<open>string | undefined\<close>.\<close>

definition js_or :: "string option \<Rightarrow> string option \<Rightarrow> string option" where
  "js_or a b = (if truthy a then a else b)"

text \<open>\<^verbatim>\<open>String.prototype.includes\<close>: does \<open>pat\<close> occur in \<open>s\<close> as a contiguous substring.\<close>

fun str_includes :: "string \<Rightarrow> string \<Rightarrow> bool" where
  "str_includes [] pat = (pat = [])"
| "str_includes (c # cs) pat = (prefix pat (c # cs) \<or> str_includes cs pat)"

text \<open>\<^verbatim>\<open>Array.prototype.join\<close> on an array of strings.\<close>

fun join :: "string list \<Rightarrow> string \<Rightarrow> string" where
  "join [] sep = []"
| "join [x] sep = x"
| "join (x # y # ys) sep = x @ sep @ join (y # ys) sep"

text \<open>
  \<^verbatim>\<open>Map.prototype.set\<close>: a key already in the map keeps its position and takes the new
  value; a new key is appended.
\<close>

fun map_set :: "'k \<Rightarrow> 'v \<Rightarrow> ('k \<times> 'v) list \<Rightarrow> ('k \<times> 'v) list" where
  "map_set k v [] = [(k, v)]"
| "map_set k v ((k', v') # m) =
     (if k' = k then (k, v) # m else (k', v') # map_set k v m)"

text \<open>
  What a \<^verbatim>\<open>catch\<close> clause can receive (\<^verbatim>\<open>error: unknown\<close>): a string, an \<^verbatim>\<open>Error\<close> with its
  message and optional stack, or any other value. For the last, the plugin only looks at
  \<^verbatim>\<open>JSON.stringify(error || '')\<close>: the value is falsy, or \<^verbatim>\<open>JSON.stringify\<close> renders a text
  for it, or \<^verbatim>\<open>JSON.stringify\<close> throws a \<^verbatim>\<open>TypeError\<close> (on a circular object or a
  \<^verbatim>\<open>BigInt\<close>), of which the message and the stack are kept.
\<close>

datatype stringified =
    Falsy
  | Rendered string
  | StringifyThrows string "string option"

datatype thrown =
    ThrownString string
  | ThrownError string "string option"
  | ThrownOther stringified

subsection \<open>Data model\<close>

record license_entry =
  type :: string
  url :: string

text \<open>
  The \<^verbatim>\<open>licenses\<close> field is declared as an array of entries, but \<^verbatim>\<open>parseLicense\<close> also
  tests \<^verbatim>\<open>typeof packageData.licenses === 'string'\<close>, so both shapes are values of it.
\<close>

datatype licenses_field =
    LicensesString string
  | LicensesArray "license_entry list"

datatype author_field =
    AuthorString string
  | AuthorObject "string option"

text \<open>
  \<^verbatim>\<open>IPackageData\<close>: the fields of \<^verbatim>\<open>package.json\<close> the plugin reads (\<^verbatim>\<open>name\<close> and
  \<^verbatim>\<open>version\<close> are strings in \<^verbatim>\<open>IPackageJson\<close>), and the fields it adds. The plugin uses
  the same type for a descriptor and for an output record.
\<close>

record IPackageData =
  name :: string
  version :: string
  license :: "string option"
  licenses :: "licenses_field option"
  author :: "author_field option"
  licenseSource :: "string option"
  copyright :: "string option"

record IEmbeddedDependenciesFile =
  file_name :: "string option"
  file_version :: "string option"
  embeddedDependencies :: "IPackageData list"

record IResourceResolveData =
  descriptionFileData :: "IPackageData option"
  descriptionFileRoot :: "string option"
  relativePath :: "string option"

record IWebpackModuleCreateData =
  resourceResolveData :: "IResourceResolveData option"

record ThirdPartyPackage =
  packageFolderPath :: string
  packageJsonData :: IPackageData

type_synonym ThirdPartyPackageMap = "(string \<times> ThirdPartyPackage) list"

type_synonym LicenseFileGeneratorFunction = "IPackageData list \<Rightarrow> thrown + string"

record IEmbeddedDependenciesWebpackPluginOptions =
  outputFileName :: "string option"
  generateLicenseFile :: "bool option"
  generateLicenseFileFunction :: "LicenseFileGeneratorFunction option"
  generatedLicenseFilename :: "string option"
  packageFilterPredicate :: "(IPackageData \<Rightarrow> string \<Rightarrow> bool) option"

text \<open>The private fields of the plugin instance (\<^verbatim>\<open>this._outputFileName\<close> and so on).\<close>

record EmbeddedDependenciesWebpackPlugin =
  this_outputFileName :: string
  this_generateLicenseFile :: bool
  this_generateLicenseFileFunction :: LicenseFileGeneratorFunction
  this_generatedLicenseFilename :: string
  this_packageFilterFunction :: "IPackageData \<Rightarrow> string \<Rightarrow> bool"

text \<open>
  The part of webpack's \<^verbatim>\<open>Compilation\<close> the plugin writes: the assets emitted, in order,
  and the messages of the \<^verbatim>\<open>WebpackError\<close>s pushed on \<^verbatim>\<open>compilation.errors\<close>.
\<close>

record Compilation =
  assets :: "(string \<times> string) list"
  errors :: "string list"

text \<open>
  What the plugin takes from its surroundings. \<^verbatim>\<open>LICENSE_FILES_REGEXP\<close> and
  \<^verbatim>\<open>COPYRIGHT_REGEX\<close> are constants of \<^verbatim>\<open>./regexpUtils\<close>, which is not among the sources:
  they are parameters, the first through \<^verbatim>\<open>RegExp.test\<close>, the second through
  \<^verbatim>\<open>String.match\<close> (\<open>None\<close> for \<^verbatim>\<open>null\<close>, otherwise \<^verbatim>\<open>match[0]\<close>). The file system, Node's
  \<^verbatim>\<open>path.join\<close> and \<^verbatim>\<open>JSON.stringify\<close> are parameters too. The last two fields are the
  timing of the event loop, which the code does not fix: \<open>settledAt\<close> is the time at which
  the callback of a table entry settles (it pushes its record or rejects), and
  \<open>resumeAfter\<close> is the time that passes between the first rejection and the \<^verbatim>\<open>catch\<close>
  block of the hook.
\<close>

record host =
  readdir :: "string \<Rightarrow> thrown + string list option"
  readFileAsync :: "string \<Rightarrow> thrown + string"
  path_join :: "string \<Rightarrow> string \<Rightarrow> string"
  LICENSE_FILES_REGEXP_test :: "string \<Rightarrow> bool"
  COPYRIGHT_REGEX_match :: "string \<Rightarrow> string option"
  JSON_stringify :: "IEmbeddedDependenciesFile \<Rightarrow> string"
  settledAt :: "string \<times> ThirdPartyPackage \<Rightarrow> nat"
  resumeAfter :: nat

subsection \<open>Constants\<close>

definition PLUGIN_ERROR_PREFIX :: string where
  "PLUGIN_ERROR_PREFIX = ''[embedded-dependencies-webpack-plugin]''"

definition DEFAULT_GENERATED_LICENSE_FILE_NAME :: string where
  "DEFAULT_GENERATED_LICENSE_FILE_NAME = ''THIRD-PARTY-NOTICES.html''"

definition DEFAULT_EMBEDDED_DEPENDENCIES_FILE_NAME :: string where
  "DEFAULT_EMBEDDED_DEPENDENCIES_FILE_NAME = ''embedded-dependencies.json''"

definition DEFAULT_PACKAGE_FILTER_FUNCTION :: "IPackageData \<Rightarrow> string \<Rightarrow> bool" where
  "DEFAULT_PACKAGE_FILTER_FUNCTION = (\<lambda>packageJson filePath. True)"

subsection \<open>Descriptor functions\<close>

definition makePackageMapKeyForPackage :: "IPackageData \<Rightarrow> string" where
  "makePackageMapKeyForPackage pkg = name pkg @ ''@'' @ version pkg"

definition parseLicense :: "IPackageData \<Rightarrow> string option" where
  "parseLicense packageData =
     (if truthy (license packageData) then license packageData
      else case licenses packageData of
             Some (LicensesString s) \<Rightarrow> Some s
           | Some (LicensesArray ls) \<Rightarrow>
               (if length ls \<noteq> 0 then
                  (if length ls = 1 then Some (type (hd ls))
                   else Some (''('' @ join (map type ls) '' OR '' @ '')''))
                else None)
           | None \<Rightarrow> None)"

definition parsePackageAuthor :: "IPackageData \<Rightarrow> string option" where
  "parsePackageAuthor p =
     (case author p of
        Some (AuthorString s) \<Rightarrow> Some s
      | Some (AuthorObject n) \<Rightarrow> n
      | None \<Rightarrow> None)"

text \<open>\<^verbatim>\<open>a || d\<close> where \<open>d\<close> is a string.\<close>

definition or_default :: "string option \<Rightarrow> string \<Rightarrow> string" where
  "or_default a d = (case a of Some s \<Rightarrow> (if s \<noteq> [] then s else d) | None \<Rightarrow> d)"

subsection \<open>The plugin instance\<close>

definition defaultLicenseFileGenerator :: LicenseFileGeneratorFunction where
  "defaultLicenseFileGenerator packages =
     (let licenseContent = (\<lambda>pkg.
            or_default (js_or (licenseSource pkg) (copyright pkg))
              ''License or Copyright not found'');
          licenseTemplateForPackage = (\<lambda>pkg.
            ''<hr />'' @ name pkg @ '' - '' @ version pkg @ ''<br /><br />'' @ licenseContent pkg)
      in Inr (join (map licenseTemplateForPackage packages) [CHR 0x0A]))"

text \<open>
  The constructor: every option is read through \<^verbatim>\<open>options?.field || default\<close>. A function
  is always truthy, so a function option is replaced only when it is absent.
\<close>

definition constructor ::
  "IEmbeddedDependenciesWebpackPluginOptions option \<Rightarrow> EmbeddedDependenciesWebpackPlugin" where
  "constructor opts =
     \<lparr> this_outputFileName =
         or_default (Option.bind opts outputFileName) DEFAULT_EMBEDDED_DEPENDENCIES_FILE_NAME,
       this_generateLicenseFile =
         (case Option.bind opts generateLicenseFile of Some b \<Rightarrow> (if b then b else False)
          | None \<Rightarrow> False),
       this_generateLicenseFileFunction =
         (case Option.bind opts generateLicenseFileFunction of Some f \<Rightarrow> f
          | None \<Rightarrow> defaultLicenseFileGenerator),
       this_generatedLicenseFilename =
         or_default (Option.bind opts generatedLicenseFilename) DEFAULT_GENERATED_LICENSE_FILE_NAME,
       this_packageFilterFunction =
         (case Option.bind opts packageFilterPredicate of Some f \<Rightarrow> f
          | None \<Rightarrow> DEFAULT_PACKAGE_FILTER_FUNCTION) \<rparr>"

subsection \<open>Discovery: the module hook\<close>

text \<open>
  The guard of the hook: \<^verbatim>\<open>pkg && filePath && this._packageFilterFunction(pkg, filePath) &&
  filePath?.includes('node_modules')\<close>. It gives the descriptor and the path when the event
  passes, \<open>None\<close> when it does not.
\<close>

definition hookGuard ::
  "EmbeddedDependenciesWebpackPlugin \<Rightarrow> IWebpackModuleCreateData \<Rightarrow> (IPackageData \<times> string) option" where
  "hookGuard this moduleCreateData =
     (let pkg = Option.bind (resourceResolveData moduleCreateData) descriptionFileData;
          filePath = Option.bind (resourceResolveData moduleCreateData) descriptionFileRoot
      in case pkg of
           None \<Rightarrow> None
         | Some pk \<Rightarrow>
             (case filePath of
                None \<Rightarrow> None
              | Some fp \<Rightarrow>
                  (if fp \<noteq> [] \<and> this_packageFilterFunction this pk fp
                      \<and> str_includes fp ''node_modules''
                   then Some (pk, fp) else None)))"

definition moduleHook ::
  "EmbeddedDependenciesWebpackPlugin \<Rightarrow> IWebpackModuleCreateData \<Rightarrow> ThirdPartyPackageMap
     \<Rightarrow> ThirdPartyPackageMap" where
  "moduleHook this moduleCreateData thirdPartyPackages =
     (case hookGuard this moduleCreateData of
        Some (pkg, filePath) \<Rightarrow>
          map_set (makePackageMapKeyForPackage pkg)
            \<lparr> packageFolderPath = filePath, packageJsonData = pkg \<rparr> thirdPartyPackages
      | None \<Rightarrow> thirdPartyPackages)"

text \<open>
  Discovery over one build: the table starts empty (\<^verbatim>\<open>new Map()\<close> in the
  \<^verbatim>\<open>thisCompilation\<close> tap) and the hook runs once per module, in the order of the events.
\<close>

definition discovery ::
  "EmbeddedDependenciesWebpackPlugin \<Rightarrow> IWebpackModuleCreateData list \<Rightarrow> ThirdPartyPackageMap" where
  "discovery this events = foldl (\<lambda>table ev. moduleHook this ev table) [] events"

subsection \<open>Errors and assets\<close>

text \<open>
  The message of the \<^verbatim>\<open>WebpackError\<close> that \<^verbatim>\<open>_emitWebpackError\<close> builds, or what the call
  of \<^verbatim>\<open>JSON.stringify\<close> in its last branch throws.
\<close>

definition emittedError :: "string \<Rightarrow> thrown \<Rightarrow> thrown + string" where
  "emittedError errorMessage error =
     (case error of
        ThrownString s \<Rightarrow> Inr (PLUGIN_ERROR_PREFIX @ '': '' @ errorMessage @ '': '' @ s)
      | ThrownError message stack \<Rightarrow>
          Inr (PLUGIN_ERROR_PREFIX @ '': '' @ errorMessage @ '': '' @ message @ [CHR 0x0A]
                 @ or_default stack [])
      | ThrownOther Falsy \<Rightarrow>
          Inr (PLUGIN_ERROR_PREFIX @ '': '' @ errorMessage @ '': '' @ [CHR 0x22, CHR 0x22])
      | ThrownOther (Rendered json) \<Rightarrow>
          Inr (PLUGIN_ERROR_PREFIX @ '': '' @ errorMessage @ '': '' @ json)
      | ThrownOther (StringifyThrows message stack) \<Rightarrow> Inl (ThrownError message stack))"

text \<open>
  \<^verbatim>\<open>_emitWebpackError\<close>: the error is pushed on \<^verbatim>\<open>compilation.errors\<close> once its message is
  built; when building the message throws, nothing is pushed and the call throws.
\<close>

definition emitWebpackError :: "Compilation \<Rightarrow> string \<Rightarrow> thrown \<Rightarrow> thrown + Compilation" where
  "emitWebpackError compilation errorMessage error =
     (case emittedError errorMessage error of
        Inl typeError \<Rightarrow> Inl typeError
      | Inr message \<Rightarrow> Inr (compilation\<lparr> errors := errors compilation @ [message] \<rparr>))"

text \<open>\<^verbatim>\<open>compilation.emitAsset\<close>: the asset is recorded after those emitted before.\<close>

definition emitAsset :: "Compilation \<Rightarrow> string \<Rightarrow> string \<Rightarrow> Compilation" where
  "emitAsset compilation file source =
     compilation\<lparr> assets := assets compilation @ [(file, source)] \<rparr>"

subsection \<open>Enrichment\<close>

text \<open>
  \<^verbatim>\<open>files?.map(toString).filter(test).map(join)[0]\<close>: \<^verbatim>\<open>undefined\<close> when the listing is
  \<^verbatim>\<open>undefined\<close> or no name matches; a failing \<^verbatim>\<open>readdir\<close> rejects.
\<close>

definition getLicenseFilePathAsync :: "host \<Rightarrow> string \<Rightarrow> thrown + string option" where
  "getLicenseFilePathAsync h modulePath =
     (case readdir h modulePath of
        Inl e \<Rightarrow> Inl e
      | Inr None \<Rightarrow> Inr None
      | Inr (Some files) \<Rightarrow>
          Inr (case map (path_join h modulePath) (filter (LICENSE_FILES_REGEXP_test h) files) of
                 [] \<Rightarrow> None
               | p # _ \<Rightarrow> Some p))"

definition parseCopyright :: "host \<Rightarrow> string \<Rightarrow> string option" where
  "parseCopyright h licenseSrc =
     (case COPYRIGHT_REGEX_match h licenseSrc of Some m \<Rightarrow> Some m | None \<Rightarrow> None)"

text \<open>
  The callback given to \<^verbatim>\<open>Async.forEachAsync\<close>, with the array \<^verbatim>\<open>packages\<close> it pushes on
  passed through.
\<close>

definition enrichEntry ::
  "host \<Rightarrow> string \<times> ThirdPartyPackage \<Rightarrow> IPackageData list \<Rightarrow> thrown + IPackageData list" where
  "enrichEntry h entry packages =
     (let dir = packageFolderPath (snd entry);
          data = packageJsonData (snd entry);
          licenseStr = parseLicense data
      in case getLicenseFilePathAsync h dir of
           Inl e \<Rightarrow> Inl e
         | Inr licensePath \<Rightarrow>
             (if truthy licensePath then
                (case readFileAsync h (the licensePath) of
                   Inl e \<Rightarrow> Inl e
                 | Inr licenseSrc \<Rightarrow>
                     Inr (packages @ [\<lparr> name = name data, version = version data,
                            license = licenseStr, licenses = None, author = None,
                            licenseSource = Some licenseSrc,
                            copyright = js_or (parseCopyright h licenseSrc)
                                          (parsePackageAuthor data) \<rparr>]))
              else
                Inr (packages @ [\<lparr> name = name data, version = version data,
                       license = licenseStr, licenses = None, author = None,
                       licenseSource = None,
                       copyright = parsePackageAuthor data \<rparr>])))"

text \<open>
  Modelled from the spec: \<^verbatim>\<open>Async.forEachAsync\<close> of \<^verbatim>\<open>@rushstack/node-core-library\<close> is not
  among the sources. The spec: entries are processed with order-independent concurrency;
  a failure does not stop the other entries already scheduled from completing, but it
  aborts the batch, and which results of the other entries are in the array when the
  caller goes on depends on the timing. So every callback is started, each settles at its
  own time (entries that settle at the same time do so in the order of the iterable), and
  the callbacks share the state \<open>s\<close>. The first rejection rejects the whole call; the caller
  resumes \<open>resumeAfter\<close> later, and the callbacks that settle up to then have still run.
  With no rejection the caller resumes when all have settled.

  \<open>settle\<close> goes through the entries in the order they settle; \<open>rejected\<close> holds the first
  rejection and its time.
\<close>

fun settle ::
  "('a \<Rightarrow> nat) \<Rightarrow> nat \<Rightarrow> 'a list \<Rightarrow> ('a \<Rightarrow> 's \<Rightarrow> thrown + 's) \<Rightarrow> (thrown \<times> nat) option \<Rightarrow> 's
     \<Rightarrow> thrown option \<times> 's" where
  "settle settled resume [] callback rejected s = (map_option fst rejected, s)"
| "settle settled resume (x # xs) callback rejected s =
     (case rejected of
        None \<Rightarrow>
          (case callback x s of
             Inl e \<Rightarrow> settle settled resume xs callback (Some (e, settled x)) s
           | Inr s' \<Rightarrow> settle settled resume xs callback None s')
      | Some (e, t) \<Rightarrow>
          (if settled x \<le> t + resume then
             (case callback x s of
                Inl e' \<Rightarrow> settle settled resume xs callback rejected s
              | Inr s' \<Rightarrow> settle settled resume xs callback rejected s')
           else (Some e, s)))"

definition forEachAsync ::
  "('a \<Rightarrow> nat) \<Rightarrow> nat \<Rightarrow> 'a list \<Rightarrow> ('a \<Rightarrow> 's \<Rightarrow> thrown + 's) \<Rightarrow> 's \<Rightarrow> thrown option \<times> 's" where
  "forEachAsync settled resume iterable callback s =
     settle settled resume (sort_key settled iterable) callback None s"

text \<open>
  Modelled from the spec: \<^verbatim>\<open>Sort.sortBy\<close> of \<^verbatim>\<open>@rushstack/node-core-library\<close> is not among
  the sources. The spec: sort records by name ascending, stable comparison. So it is the
  stable sort on the selected key, strings compared code unit by code unit.
\<close>

definition sortBy :: "'a list \<Rightarrow> ('a \<Rightarrow> 'k::linorder) \<Rightarrow> 'a list" where
  "sortBy array keySelector = sort_key keySelector array"

subsection \<open>Reporting: the processAssets hook\<close>

text \<open>The \<^verbatim>\<open>try\<close> block: what was thrown, if anything, and the array \<^verbatim>\<open>packages\<close>.\<close>

definition enrichment ::
  "host \<Rightarrow> ThirdPartyPackageMap \<Rightarrow> thrown option \<times> IPackageData list" where
  "enrichment h thirdPartyPackages =
     forEachAsync (settledAt h) (resumeAfter h) thirdPartyPackages (enrichEntry h) []"

text \<open>
  The hook returns the compilation as it has left it and, when its promise rejects, what
  it rejects with. Nothing encloses the two \<^verbatim>\<open>catch\<close> blocks, so when
  \<^verbatim>\<open>_emitWebpackError\<close> throws in one of them the hook rejects there: in the first, after
  the \<^verbatim>\<open>finally\<close> block and before any asset is emitted.
\<close>

definition processAssets ::
  "host \<Rightarrow> EmbeddedDependenciesWebpackPlugin \<Rightarrow> ThirdPartyPackageMap \<Rightarrow> Compilation
     \<Rightarrow> thrown option \<times> Compilation" where
  "processAssets h this thirdPartyPackages compilation =
     (let (thrownValue, pushed) = enrichment h thirdPartyPackages;
          caught =
            (case thrownValue of
               Some e \<Rightarrow> emitWebpackError compilation ''Failed to process embedded dependencies'' e
             | None \<Rightarrow> Inr compilation);
          packages = sortBy pushed name
      in case caught of
           Inl typeError \<Rightarrow> (Some typeError, compilation)
         | Inr compilation1 \<Rightarrow>
             (let dataToStringify =
                    \<lparr> file_name = None, file_version = None, embeddedDependencies = packages \<rparr>;
                  compilation2 =
                    emitAsset compilation1 (this_outputFileName this)
                      (JSON_stringify h dataToStringify)
              in if this_generateLicenseFile this then
                   (case this_generateLicenseFileFunction this packages of
                      Inr content \<Rightarrow>
                        (None, emitAsset compilation2 (this_generatedLicenseFilename this) content)
                    | Inl e \<Rightarrow>
                        (case emitWebpackError compilation2 ''Failed to generate license file'' e of
                           Inl typeError \<Rightarrow> (Some typeError, compilation2)
                         | Inr compilation3 \<Rightarrow> (None, compilation3)))
                 else (None, compilation2)))"

text \<open>
  The records that the callbacks of these entries push, in this order; an entry whose
  callback rejects pushes none.
\<close>

definition recordsOf :: "host \<Rightarrow> ThirdPartyPackageMap \<Rightarrow> IPackageData list" where
  "recordsOf h entries =
     concat (map (\<lambda>entry. case enrichEntry h entry [] of Inl e \<Rightarrow> [] | Inr pushed \<Rightarrow> pushed)
       entries)"

subsection \<open>The dependency-storage test in the spec's words\<close>

text \<open>
  The segments of a path: the pieces between the separators \<^verbatim>\<open>/\<close> and \<^verbatim>\<open>\\<close>; \<open>current\<close>
  holds the segment being read.
\<close>

fun splitSegments :: "string \<Rightarrow> string \<Rightarrow> string list" where
  "splitSegments current [] = [current]"
| "splitSegments current (c # cs) =
     (if c = CHR ''/'' \<or> c = CHR 0x5C then current # splitSegments [] cs
      else splitSegments (current @ [c]) cs)"

definition pathSegments :: "string \<Rightarrow> string list" where
  "pathSegments filePath = splitSegments [] filePath"

text \<open>
  Following the spec's words, not the code: the path lies within a dependency-storage
  area when one of its segments is named \<^verbatim>\<open>node_modules\<close> (a name-based path-segment
  match). It is compared below with the test the hook makes.
\<close>

definition spec_pathSegmentMatch :: "string \<Rightarrow> bool" where
  "spec_pathSegmentMatch filePath = (''node_modules'' \<in> set (pathSegments filePath))"

subsection \<open>Example inputs\<close>

definition exampleDescriptor :: IPackageData where
  "exampleDescriptor =
     \<lparr> name = ''foo'', version = ''1.0.0'', license = Some ''MIT'', licenses = None,
       author = Some (AuthorString ''Jane Doe''), licenseSource = None, copyright = None \<rparr>"

definition exampleTwoLicenses :: IPackageData where
  "exampleTwoLicenses =
     \<lparr> name = ''foo'', version = ''1.0.0'', license = None,
       licenses = Some (LicensesArray [\<lparr> type = ''MIT'', url = [] \<rparr>,
                                        \<lparr> type = ''Apache-2.0'', url = [] \<rparr>]),
       author = None, licenseSource = None, copyright = None \<rparr>"

definition exampleEmptyLicense :: IPackageData where
  "exampleEmptyLicense =
     \<lparr> name = ''foo'', version = ''1.0.0'', license = Some [],
       licenses = Some (LicensesArray [\<lparr> type = ''MIT'', url = [] \<rparr>]),
       author = None, licenseSource = None, copyright = None \<rparr>"

text \<open>A module-resolution event that carries a descriptor and a package root.\<close>

definition eventAt :: "IPackageData \<Rightarrow> string \<Rightarrow> IWebpackModuleCreateData" where
  "eventAt pkg root =
     \<lparr> resourceResolveData =
         Some \<lparr> descriptionFileData = Some pkg, descriptionFileRoot = Some root,
                relativePath = None \<rparr> \<rparr>"

text \<open>
  A small host: four package folders, one with \<^verbatim>\<open>LICENSE\<close> listed before
  \<^verbatim>\<open>LICENSE.txt\<close>, one with them in the other order, two with no license file; any other
  folder cannot be listed. Its two patterns stand in for those of \<^verbatim>\<open>./regexpUtils\<close>: a
  file name matches when it is \<^verbatim>\<open>LICENSE\<close> or \<^verbatim>\<open>LICENSE.txt\<close>, and a text that starts with
  \<^verbatim>\<open>Copyright\<close> matches up to the end of its first line. Every read takes one unit of
  time, so the callback of an entry settles after two reads when its folder has a license
  file (the listing, then the file) and after one otherwise; the \<^verbatim>\<open>catch\<close> block runs
  right after the first rejection.
\<close>

definition exampleHost :: host where
  "exampleHost =
     \<lparr> readdir = (\<lambda>dir.
         if dir = ''/app/node_modules/foo''
           then Inr (Some [''package.json'', ''LICENSE'', ''LICENSE.txt''])
         else if dir = ''/app/node_modules/bar'' then Inr (Some [''LICENSE.txt'', ''LICENSE''])
         else if dir = ''/app/node_modules/baz'' then Inr (Some [''index.js''])
         else if dir = ''/app/node_modules/bar/node_modules/foo'' then Inr (Some [''index.js''])
         else Inl (ThrownError ''ENOENT'' None)),
       readFileAsync = (\<lambda>file.
         if file = ''/app/node_modules/foo/LICENSE''
           then Inr (''Copyright (c) 2020 Acme Corp'' @ [CHR 0x0A] @ ''MIT License text...'')
         else if file = ''/app/node_modules/bar/LICENSE.txt'' then Inr ''Permission is granted''
         else Inl (ThrownError ''ENOENT'' None)),
       path_join = (\<lambda>dir file. dir @ ''/'' @ file),
       LICENSE_FILES_REGEXP_test = (\<lambda>file. file = ''LICENSE'' \<or> file = ''LICENSE.txt''),
       COPYRIGHT_REGEX_match = (\<lambda>txt.
         if prefix ''Copyright'' txt then Some (takeWhile (\<lambda>c. c \<noteq> CHR 0x0A) txt) else None),
       JSON_stringify = (\<lambda>file.
         join (map (\<lambda>r. name r @ ''@'' @ version r) (embeddedDependencies file)) '',''),
       settledAt = (\<lambda>entry.
         if packageFolderPath (snd entry) = ''/app/node_modules/foo''
              \<or> packageFolderPath (snd entry) = ''/app/node_modules/bar''
         then 2 else 1),
       resumeAfter = 0 \<rparr>"

text \<open>
  Options that enable the license file and give a template function that throws: an
  \<^verbatim>\<open>Error\<close> in the first, a \<^verbatim>\<open>BigInt\<close> in the second. The third names both artifacts.
\<close>

definition throwingOptions :: IEmbeddedDependenciesWebpackPluginOptions where
  "throwingOptions =
     \<lparr> outputFileName = None, generateLicenseFile = Some True,
       generateLicenseFileFunction = Some (\<lambda>packages.
         Inl (ThrownError ''bad template'' (Some ''Error: bad template''))),
       generatedLicenseFilename = None, packageFilterPredicate = None \<rparr>"

definition bigintThrowingOptions :: IEmbeddedDependenciesWebpackPluginOptions where
  "bigintThrowingOptions =
     \<lparr> outputFileName = None, generateLicenseFile = Some True,
       generateLicenseFileFunction = Some (\<lambda>packages.
         Inl (ThrownOther (StringifyThrows ''Do not know how to serialize a BigInt'' None))),
       generatedLicenseFilename = None, packageFilterPredicate = None \<rparr>"

definition namedOptions :: IEmbeddedDependenciesWebpackPluginOptions where
  "namedOptions =
     \<lparr> outputFileName = Some ''deps.json'', generateLicenseFile = Some True,
       generateLicenseFileFunction = None, generatedLicenseFilename = Some ''NOTICES.md'',
       packageFilterPredicate = None \<rparr>"

text \<open>More descriptors, table entries, event sequences and records used below.\<close>

definition barDescriptor :: IPackageData where
  "barDescriptor =
     \<lparr> name = ''bar'', version = ''2.0.0'', license = None,
       licenses = Some (LicensesString ''ISC''),
       author = Some (AuthorObject (Some ''Bar Inc'')), licenseSource = None, copyright = None \<rparr>"

definition fooEntry :: "string \<times> ThirdPartyPackage" where
  "fooEntry = (''foo@1.0.0'',
     \<lparr> packageFolderPath = ''/app/node_modules/foo'', packageJsonData = exampleDescriptor \<rparr>)"

definition bazEntry :: "string \<times> ThirdPartyPackage" where
  "bazEntry = (''foo@1.0.0'',
     \<lparr> packageFolderPath = ''/app/node_modules/baz'', packageJsonData = exampleDescriptor \<rparr>)"

definition quxEntry :: "string \<times> ThirdPartyPackage" where
  "quxEntry = (''qux@3.0.0'',
     \<lparr> packageFolderPath = ''/app/node_modules/baz'',
       packageJsonData = exampleDescriptor\<lparr> name := ''qux'', version := ''3.0.0'' \<rparr> \<rparr>)"

definition goneEntry :: "string \<times> ThirdPartyPackage" where
  "goneEntry = (''gone@0.1.0'',
     \<lparr> packageFolderPath = ''/app/node_modules/gone'',
       packageJsonData = exampleDescriptor\<lparr> name := ''gone'', version := ''0.1.0'' \<rparr> \<rparr>)"

text \<open>
  Five events: the key \<^verbatim>\<open>foo@1.0.0\<close> is observed twice, under two package roots; one event
  lies outside \<^verbatim>\<open>node_modules\<close> and one carries no resolve data.
\<close>

definition exampleEvents :: "IWebpackModuleCreateData list" where
  "exampleEvents =
     [eventAt exampleDescriptor ''/app/node_modules/baz'',
      eventAt barDescriptor ''/app/node_modules/bar'',
      eventAt exampleDescriptor ''/app/src'',
      \<lparr> resourceResolveData = None \<rparr>,
      eventAt exampleDescriptor ''/app/node_modules/foo'']"

text \<open>
  A table whose third package folder cannot be listed, and a table that starts with that
  entry.
\<close>

definition failingTable :: ThirdPartyPackageMap where
  "failingTable =
     [fooEntry, quxEntry, goneEntry,
      (''bar@2.0.0'',
         \<lparr> packageFolderPath = ''/app/node_modules/bar'', packageJsonData = barDescriptor \<rparr>)]"

definition failingFirstTable :: ThirdPartyPackageMap where
  "failingFirstTable = [goneEntry, quxEntry]"

text \<open>Two packages with different names, both with a license file.\<close>

definition fooAndBar :: "IWebpackModuleCreateData list" where
  "fooAndBar =
     [eventAt exampleDescriptor ''/app/node_modules/foo'',
      eventAt barDescriptor ''/app/node_modules/bar'']"

text \<open>
  Two versions of the package \<^verbatim>\<open>foo\<close> in one bundle, neither with a license file, and the
  records made from them.
\<close>

definition twoVersionsOfFoo :: "IWebpackModuleCreateData list" where
  "twoVersionsOfFoo =
     [eventAt exampleDescriptor ''/app/node_modules/baz'',
      eventAt (exampleDescriptor\<lparr> version := ''2.0.0'' \<rparr>)
        ''/app/node_modules/bar/node_modules/foo'']"

definition fooRecord1 :: IPackageData where
  "fooRecord1 =
     \<lparr> name = ''foo'', version = ''1.0.0'', license = Some ''MIT'', licenses = None,
       author = None,
       licenseSource = Some (''Copyright (c) 2020 Acme Corp'' @ [CHR 0x0A] @ ''MIT License text...''),
       copyright = Some ''Copyright (c) 2020 Acme Corp'' \<rparr>"

definition bazRecord :: IPackageData where
  "bazRecord =
     \<lparr> name = ''foo'', version = ''1.0.0'', license = Some ''MIT'', licenses = None,
       author = None, licenseSource = None, copyright = Some ''Jane Doe'' \<rparr>"

definition fooRecord2 :: IPackageData where
  "fooRecord2 =
     \<lparr> name = ''foo'', version = ''2.0.0'', license = Some ''MIT'', licenses = None,
       author = None, licenseSource = None, copyright = Some ''Jane Doe'' \<rparr>"

definition quxRecord :: IPackageData where
  "quxRecord =
     \<lparr> name = ''qux'', version = ''3.0.0'', license = Some ''MIT'', licenses = None,
       author = None, licenseSource = None, copyright = Some ''Jane Doe'' \<rparr>"

definition barRecord :: IPackageData where
  "barRecord =
     \<lparr> name = ''bar'', version = ''2.0.0'', license = Some ''ISC'', licenses = None,
       author = None, licenseSource = Some ''Permission is granted'',
       copyright = Some ''Bar Inc'' \<rparr>"

section \<open>Properties\<close>

subsection \<open>Auxiliary facts\<close>

lemmas example_defs =
  exampleDescriptor_def exampleTwoLicenses_def exampleEmptyLicense_def eventAt_def
  exampleHost_def throwingOptions_def bigintThrowingOptions_def namedOptions_def
  barDescriptor_def fooEntry_def bazEntry_def quxEntry_def goneEntry_def
  exampleEvents_def failingTable_def failingFirstTable_def fooAndBar_def
  twoVersionsOfFoo_def
  fooRecord1_def bazRecord_def fooRecord2_def quxRecord_def barRecord_def

lemmas plugin_defs =
  discovery_def moduleHook_def hookGuard_def constructor_def
  DEFAULT_PACKAGE_FILTER_FUNCTION_def makePackageMapKeyForPackage_def
  DEFAULT_EMBEDDED_DEPENDENCIES_FILE_NAME_def DEFAULT_GENERATED_LICENSE_FILE_NAME_def
  processAssets_def enrichment_def forEachAsync_def enrichEntry_def
  getLicenseFilePathAsync_def parseLicense_def parsePackageAuthor_def parseCopyright_def
  js_or_def or_default_def emitAsset_def emitWebpackError_def emittedError_def
  PLUGIN_ERROR_PREFIX_def sortBy_def

text \<open>Strings and the map.\<close>

lemma str_includes_sublist: "str_includes s pat = sublist pat s"
proof (induction s)
  case Nil
  then show ?case by auto
next
  case (Cons c cs)
  then show ?case by (auto simp: sublist_Cons_right)
qed

lemma or_default_nonempty: "d \<noteq> [] \<Longrightarrow> or_default a d \<noteq> []"
  by (simp add: or_default_def split: option.splits)

lemma map_of_map_set: "map_of (map_set k v m) = (map_of m)(k \<mapsto> v)"
  by (induction m) (auto simp: fun_eq_iff)

lemma keys_map_set:
  "map fst (map_set k v m) = (if k \<in> fst ` set m then map fst m else map fst m @ [k])"
  by (induction m) (force+)

lemma key_set_map_set: "fst ` set (map_set k v m) = insert k (fst ` set m)"
proof -
  have "fst ` set (map_set k v m) = set (map fst (map_set k v m))"
    by simp
  also have "\<dots> = insert k (fst ` set m)"
    unfolding keys_map_set by auto
  finally show ?thesis .
qed

lemma distinct_map_set: "distinct (map fst m) \<Longrightarrow> distinct (map fst (map_set k v m))"
  by (simp add: keys_map_set)

lemma map_set_idem: "map_set k v (map_set k v m) = map_set k v m"
  by (induction m) auto

lemma set_map_set: "set (map_set k v m) \<subseteq> insert (k, v) (set m)"
  by (induction m) (auto split: if_splits)

lemma count_distinct_keys:
  "distinct (map f xs) \<Longrightarrow>
     length (filter (\<lambda>x. f x = k) xs) = (if k \<in> f ` set xs then 1 else 0)"
  by (induction xs) auto

text \<open>The module hook.\<close>

lemma hookGuard_iff:
  "hookGuard this ev = Some (pk, fp) \<longleftrightarrow>
     (\<exists>r. resourceResolveData ev = Some r \<and> descriptionFileData r = Some pk
        \<and> descriptionFileRoot r = Some fp)
     \<and> this_packageFilterFunction this pk fp
     \<and> sublist ''node_modules'' fp"
proof -
  have "\<not> sublist ''node_modules'' []" by simp
  then show ?thesis
    by (cases "resourceResolveData ev")
       (auto simp: hookGuard_def Let_def str_includes_sublist split: option.splits)
qed

lemma discovery_snoc:
  "discovery this (events @ [ev]) = moduleHook this ev (discovery this events)"
  by (simp add: discovery_def)

lemma keys_moduleHook:
  "fst ` set (moduleHook this ev table) =
     fst ` set table \<union>
       (case hookGuard this ev of
          Some (pk, fp) \<Rightarrow> {makePackageMapKeyForPackage pk}
        | None \<Rightarrow> {})"
  by (simp add: moduleHook_def key_set_map_set split: option.splits prod.splits)

lemma distinct_moduleHook:
  "distinct (map fst table) \<Longrightarrow> distinct (map fst (moduleHook this ev table))"
  by (simp add: moduleHook_def distinct_map_set split: option.splits prod.splits)

lemma distinct_discovery: "distinct (map fst (discovery this events))"
  by (induction events rule: rev_induct)
     (simp_all add: discovery_snoc distinct_moduleHook, simp add: discovery_def)

lemma keys_discovery:
  "fst ` set (discovery this events) =
     {makePackageMapKeyForPackage pk | pk fp ev.
        ev \<in> set events \<and> hookGuard this ev = Some (pk, fp)}"
proof (induction events rule: rev_induct)
  case Nil
  then show ?case by (simp add: discovery_def)
next
  case (snoc ev events)
  show ?case
  proof (cases "hookGuard this ev")
    case None
    then have "moduleHook this ev (discovery this events) = discovery this events"
      by (simp add: moduleHook_def)
    with snoc None show ?thesis by (auto simp: discovery_snoc)
  next
    case (Some a)
    then obtain pk fp where "hookGuard this ev = Some (pk, fp)" by (cases a) auto
    with snoc show ?thesis
      by (auto simp: discovery_snoc keys_moduleHook)
  qed
qed

lemma entries_discovery:
  "(k, e) \<in> set (discovery this events) \<Longrightarrow>
     \<exists>ev \<in> set events. hookGuard this ev = Some (packageJsonData e, packageFolderPath e)
        \<and> makePackageMapKeyForPackage (packageJsonData e) = k"
proof (induction events rule: rev_induct)
  case Nil
  then show ?case by (simp add: discovery_def)
next
  case (snoc ev events)
  show ?case
  proof (cases "hookGuard this ev")
    case None
    with snoc show ?thesis by (auto simp: discovery_snoc moduleHook_def)
  next
    case (Some a)
    then obtain pk fp where g: "hookGuard this ev = Some (pk, fp)" by (cases a) auto
    with snoc.prems have "(k, e) \<in> insert (makePackageMapKeyForPackage pk,
        \<lparr> packageFolderPath = fp, packageJsonData = pk \<rparr>) (set (discovery this events))"
      using set_map_set by (fastforce simp: discovery_snoc moduleHook_def)
    then show ?thesis
    proof
      assume "(k, e) = (makePackageMapKeyForPackage pk,
          \<lparr> packageFolderPath = fp, packageJsonData = pk \<rparr>)"
      with g show ?thesis by auto
    next
      assume "(k, e) \<in> set (discovery this events)"
      from snoc.IH [OF this] show ?thesis by auto
    qed
  qed
qed

lemma moduleHook_idem:
  "moduleHook this ev (moduleHook this ev table) = moduleHook this ev table"
  by (simp add: moduleHook_def map_set_idem split: option.splits prod.splits)

text \<open>Errors and assets.\<close>

lemma emittedError_mentions:
  "emittedError errorMessage e = Inr message \<Longrightarrow> sublist errorMessage message"
proof -
  assume "emittedError errorMessage e = Inr message"
  then have "\<exists>ss. message = (PLUGIN_ERROR_PREFIX @ '': '') @ errorMessage @ ss"
    by (auto simp: emittedError_def split: thrown.splits stringified.splits)
  then show ?thesis unfolding sublist_def by blast
qed

lemma emittedError_string:
  "\<exists>message. emittedError errorMessage (ThrownString s) = Inr message \<and> sublist s message"
proof -
  have "emittedError errorMessage (ThrownString s)
      = Inr ((PLUGIN_ERROR_PREFIX @ '': '' @ errorMessage @ '': '') @ s @ [])"
    by (simp add: emittedError_def)
  then show ?thesis unfolding sublist_def by blast
qed

lemma emittedError_Error:
  "\<exists>message. emittedError errorMessage (ThrownError msg stack) = Inr message
     \<and> sublist msg message"
proof -
  have "emittedError errorMessage (ThrownError msg stack)
      = Inr ((PLUGIN_ERROR_PREFIX @ '': '' @ errorMessage @ '': '') @ msg
          @ ([CHR 0x0A] @ or_default stack []))"
    by (simp add: emittedError_def)
  then show ?thesis unfolding sublist_def by blast
qed

text \<open>
  The hook in its cases: the first handler throws; or it does not, and then the template
  is not called, returns, throws what the second handler reports, or throws what makes the
  second handler throw.
\<close>

lemma processAssets_first_handler_throws:
  assumes "fst (enrichment h table) = Some e"
    and "emittedError ''Failed to process embedded dependencies'' e = Inl typeError"
  shows "processAssets h this table c = (Some typeError, c)"
  using assms
  by (cases "enrichment h table") (simp add: processAssets_def Let_def emitWebpackError_def)

lemma processAssets_handled:
  assumes "case fst (enrichment h table) of
             None \<Rightarrow> reported = []
           | Some e \<Rightarrow>
               emittedError ''Failed to process embedded dependencies'' e = Inr message
               \<and> reported = [message]"
  shows "processAssets h this table c =
     (let packages = sortBy (snd (enrichment h table)) name;
          compilation2 =
            \<lparr> assets = assets c @ [(this_outputFileName this,
                  JSON_stringify h \<lparr> file_name = None, file_version = None,
                    embeddedDependencies = packages \<rparr>)],
              errors = errors c @ reported \<rparr>
      in if this_generateLicenseFile this then
           (case this_generateLicenseFileFunction this packages of
              Inr content \<Rightarrow>
                (None, compilation2\<lparr> assets := assets compilation2
                          @ [(this_generatedLicenseFilename this, content)] \<rparr>)
            | Inl e \<Rightarrow>
                (case emittedError ''Failed to generate license file'' e of
                   Inl typeError \<Rightarrow> (Some typeError, compilation2)
                 | Inr message2 \<Rightarrow>
                     (None, compilation2\<lparr> errors := errors compilation2 @ [message2] \<rparr>)))
         else (None, compilation2))"
  using assms
  by (cases "fst (enrichment h table)")
     (auto simp: processAssets_def Let_def emitWebpackError_def emitAsset_def
        split: prod.splits sum.splits)

lemma inventory_emitted:
  assumes "case fst (enrichment h table) of
             None \<Rightarrow> reported = []
           | Some e \<Rightarrow>
               emittedError ''Failed to process embedded dependencies'' e = Inr message
               \<and> reported = [message]"
  shows "prefix (assets c @ [(this_outputFileName this,
              JSON_stringify h \<lparr> file_name = None, file_version = None,
                embeddedDependencies = sortBy (snd (enrichment h table)) name \<rparr>)])
           (assets (snd (processAssets h this table c)))"
    and "prefix (errors c @ reported) (errors (snd (processAssets h this table c)))"
  unfolding processAssets_handled [OF assms]
  by (simp_all add: Let_def split: sum.splits)

lemma asset_names_processAssets:
  assumes "this_outputFileName this \<noteq> []" and "this_generatedLicenseFilename this \<noteq> []"
  shows "list_all (\<lambda>asset. fst asset \<noteq> [])
           (assets (snd (processAssets h this table \<lparr> assets = [], errors = [] \<rparr>)))"
  using assms
  by (simp add: processAssets_def Let_def emitWebpackError_def emitAsset_def
      split: prod.splits option.splits sum.splits)

lemma constructor_outputFileName_nonempty: "this_outputFileName (constructor optional) \<noteq> []"
  by (simp add: constructor_def or_default_nonempty DEFAULT_EMBEDDED_DEPENDENCIES_FILE_NAME_def)

lemma constructor_generatedLicenseFilename_nonempty:
  "this_generatedLicenseFilename (constructor optional) \<noteq> []"
  by (simp add: constructor_def or_default_nonempty DEFAULT_GENERATED_LICENSE_FILE_NAME_def)

text \<open>Enrichment.\<close>

lemma getLicenseFilePathAsync_first:
  assumes "readdir h modulePath = Inr (Some files)"
    and "filter (LICENSE_FILES_REGEXP_test h) files = f # others"
  shows "getLicenseFilePathAsync h modulePath = Inr (Some (path_join h modulePath f))"
  using assms by (simp add: getLicenseFilePathAsync_def)

lemma getLicenseFilePathAsync_none:
  assumes "readdir h modulePath = Inr listing"
    and "\<And>files. listing = Some files \<Longrightarrow> filter (LICENSE_FILES_REGEXP_test h) files = []"
  shows "getLicenseFilePathAsync h modulePath = Inr None"
  using assms by (cases listing) (simp_all add: getLicenseFilePathAsync_def)

lemma enrichEntry_state:
  "enrichEntry h x s =
     (case enrichEntry h x [] of Inl e \<Rightarrow> Inl e | Inr pushed \<Rightarrow> Inr (s @ pushed))"
  by (simp add: enrichEntry_def Let_def split: sum.splits)

lemma enrichEntry_single:
  "enrichEntry h x [] = Inr pushed \<Longrightarrow>
     \<exists>r. pushed = [r] \<and> name r = name (packageJsonData (snd x))
        \<and> version r = version (packageJsonData (snd x))"
  by (auto simp: enrichEntry_def Let_def split: sum.splits if_splits)

lemma recordsOf_Nil [simp]: "recordsOf h [] = []"
  by (simp add: recordsOf_def)

lemma recordsOf_append [simp]: "recordsOf h (xs @ ys) = recordsOf h xs @ recordsOf h ys"
  by (simp add: recordsOf_def)

lemma recordsOf_Cons:
  "recordsOf h (x # xs) =
     (case enrichEntry h x [] of Inl e \<Rightarrow> [] | Inr pushed \<Rightarrow> pushed) @ recordsOf h xs"
  by (simp add: recordsOf_def)

lemma settle_rejected:
  "settle lat d xs (enrichEntry h) (Some (e, t)) s =
     (Some e, s @ recordsOf h (takeWhile (\<lambda>x. lat x \<le> t + d) xs))"
proof (induction xs arbitrary: s)
  case Nil
  then show ?case by simp
next
  case (Cons x xs)
  show ?case
  proof (cases "enrichEntry h x []")
    case (Inl e')
    then have "enrichEntry h x s = Inl e'" by (subst enrichEntry_state) simp
    with Inl Cons.IH [of s] show ?thesis by (simp add: recordsOf_Cons)
  next
    case (Inr pushed)
    then have "enrichEntry h x s = Inr (s @ pushed)" by (subst enrichEntry_state) simp
    with Inr Cons.IH [of "s @ pushed"] show ?thesis by (simp add: recordsOf_Cons)
  qed
qed

lemma settle_all_pushed:
  "\<forall>x \<in> set xs. \<forall>e. enrichEntry h x [] \<noteq> Inl e \<Longrightarrow>
     settle lat d xs (enrichEntry h) None s = (None, s @ recordsOf h xs)"
proof (induction xs arbitrary: s)
  case Nil
  then show ?case by simp
next
  case (Cons x xs)
  then obtain pushed where p: "enrichEntry h x [] = Inr pushed"
    by (cases "enrichEntry h x []") auto
  then have "enrichEntry h x s = Inr (s @ pushed)" by (subst enrichEntry_state) simp
  with p Cons.IH [of "s @ pushed"] Cons.prems show ?case by (simp add: recordsOf_Cons)
qed

lemma recordsOf_all_pushed_names:
  "\<forall>x \<in> set xs. \<forall>e. enrichEntry h x [] \<noteq> Inl e \<Longrightarrow>
     map name (recordsOf h xs) = map (\<lambda>x. name (packageJsonData (snd x))) xs"
proof (induction xs)
  case Nil
  then show ?case by simp
next
  case (Cons x xs)
  then obtain pushed where p: "enrichEntry h x [] = Inr pushed"
    by (cases "enrichEntry h x []") auto
  from enrichEntry_single [OF p] obtain r where "pushed = [r]"
    "name r = name (packageJsonData (snd x))" by blast
  with p Cons show ?case by (simp add: recordsOf_Cons)
qed

lemma settle_first_rejection:
  assumes "xs = before @ failing # after"
    and "\<forall>x \<in> set before. \<forall>e'. enrichEntry h x [] \<noteq> Inl e'"
    and "enrichEntry h failing [] = Inl e"
  shows "settle lat d xs (enrichEntry h) None s =
     (Some e, s @ recordsOf h before
        @ recordsOf h (takeWhile (\<lambda>x. lat x \<le> lat failing + d) after))"
  using assms
proof (induction before arbitrary: xs s)
  case Nil
  from Nil(3) have "enrichEntry h failing s = Inl e" by (subst enrichEntry_state) simp
  with Nil show ?case by (simp add: settle_rejected)
next
  case (Cons x before)
  then obtain pushed where p: "enrichEntry h x [] = Inr pushed"
    by (cases "enrichEntry h x []") auto
  then have "enrichEntry h x s = Inr (s @ pushed)" by (subst enrichEntry_state) simp
  with p Cons.IH [of "before @ failing # after" "s @ pushed"] Cons.prems show ?case
    by (simp add: recordsOf_Cons)
qed

text \<open>
  The two outcomes of the \<^verbatim>\<open>try\<close> block: every callback pushed, or the entries split at
  the first one that rejects.
\<close>

lemma enrichment_cases:
  "(fst (enrichment h table) = None
      \<and> (\<forall>x \<in> set table. \<forall>e. enrichEntry h x [] \<noteq> Inl e)
      \<and> snd (enrichment h table) = recordsOf h (sort_key (settledAt h) table))
   \<or> (\<exists>before failing after e.
         sort_key (settledAt h) table = before @ failing # after
       \<and> (\<forall>x \<in> set before. \<forall>e'. enrichEntry h x [] \<noteq> Inl e')
       \<and> enrichEntry h failing [] = Inl e
       \<and> enrichment h table =
           (Some e, recordsOf h before
              @ recordsOf h (takeWhile
                  (\<lambda>x. settledAt h x \<le> settledAt h failing + resumeAfter h) after)))"
proof (cases "\<exists>x \<in> set (sort_key (settledAt h) table). \<exists>e. enrichEntry h x [] = Inl e")
  case True
  from split_list_first_prop [OF this] obtain before failing after where
    s: "sort_key (settledAt h) table = before @ failing # after"
    and f: "\<exists>e. enrichEntry h failing [] = Inl e"
    and b: "\<forall>x \<in> set before. \<not> (\<exists>e. enrichEntry h x [] = Inl e)"
    by blast
  from f obtain e where e: "enrichEntry h failing [] = Inl e" by blast
  from b have b': "\<forall>x \<in> set before. \<forall>e'. enrichEntry h x [] \<noteq> Inl e'" by blast
  from settle_first_rejection [OF s b' e, of "settledAt h" "resumeAfter h" "[]"]
  have "enrichment h table =
           (Some e, recordsOf h before
              @ recordsOf h (takeWhile
                  (\<lambda>x. settledAt h x \<le> settledAt h failing + resumeAfter h) after))"
    by (simp add: enrichment_def forEachAsync_def)
  with s b' e show ?thesis by blast
next
  case False
  then have all: "\<forall>x \<in> set (sort_key (settledAt h) table). \<forall>e. enrichEntry h x [] \<noteq> Inl e"
    by blast
  from settle_all_pushed [OF this, of "settledAt h" "resumeAfter h" "[]"]
  have "enrichment h table = (None, recordsOf h (sort_key (settledAt h) table))"
    by (simp add: enrichment_def forEachAsync_def)
  with all show ?thesis by simp
qed

text \<open>Sorting: in a list with distinct keys, the elements of one key do not depend on the order.\<close>

lemma same_key_filter:
  assumes "distinct (map f xs)" and "mset ys = mset xs"
  shows "filter (\<lambda>x. f x = k) ys = filter (\<lambda>x. f x = k) xs"
proof -
  have d: "distinct (map f ys)"
    using assms by (metis distinct_map mset_eq_setD mset_map mset_eq_imp_distinct_iff)
  have one: "length (filter (\<lambda>x. f x = k) zs) \<le> 1" if "distinct (map f zs)" for zs
    using that by (induction zs) (auto simp: filter_empty_conv image_iff)
  have m: "mset (filter (\<lambda>x. f x = k) ys) = mset (filter (\<lambda>x. f x = k) xs)"
    using assms(2) by simp
  have eq: "as = bs" if "mset as = mset bs" "length as \<le> 1" for as bs
    using that by (cases as; cases bs) auto
  show ?thesis by (rule eq [OF m one [OF d]])
qed

subsection \<open>Discovery\<close>

text \<open>
  C1. For every sequence of module-resolution events, the table after Discovery has
  pairwise distinct keys, and for every \<^verbatim>\<open>name@version\<close> key it holds exactly one entry when
  some event that passes the hook's guard carries the key, however many do, and none
  otherwise. The entry of a key holds the descriptor and the package root of an event that
  carried this key (the last one: an event that passes the guard leaves its own data under
  its key), so when every observation of a key carries the descriptor of the manifest,
  this is the descriptor of the entry. Observing the same event twice in a row is the same
  as observing it once.
\<close>

theorem discovery_one_entry_per_key:
  "distinct (map fst (discovery this events))
   \<and> length (filter (\<lambda>entry. fst entry = key) (discovery this events)) =
       (if \<exists>ev \<in> set events. \<exists>pk fp. hookGuard this ev = Some (pk, fp)
             \<and> makePackageMapKeyForPackage pk = key
        then 1 else 0)
   \<and> (\<forall>e. (key, e) \<in> set (discovery this events) \<longrightarrow>
         (\<exists>ev \<in> set events. hookGuard this ev = Some (packageJsonData e, packageFolderPath e)
            \<and> makePackageMapKeyForPackage (packageJsonData e) = key))
   \<and> (\<forall>pk fp. hookGuard this ev = Some (pk, fp) \<longrightarrow>
         map_of (discovery this (events @ [ev])) (makePackageMapKeyForPackage pk) =
           Some \<lparr> packageFolderPath = fp, packageJsonData = pk \<rparr>)
   \<and> moduleHook this ev (moduleHook this ev table) = moduleHook this ev table"
proof -
  have one: "length (filter (\<lambda>entry. fst entry = key) (discovery this events)) =
       (if \<exists>ev \<in> set events. \<exists>pk fp. hookGuard this ev = Some (pk, fp)
             \<and> makePackageMapKeyForPackage pk = key
        then 1 else 0)"
  proof -
    have "key \<in> fst ` set (discovery this events) \<longleftrightarrow>
        (\<exists>ev \<in> set events. \<exists>pk fp. hookGuard this ev = Some (pk, fp)
             \<and> makePackageMapKeyForPackage pk = key)"
      unfolding keys_discovery by blast
    then show ?thesis
      using count_distinct_keys [OF distinct_discovery, of key this events] by simp
  qed
  have last: "\<forall>pk fp. hookGuard this ev = Some (pk, fp) \<longrightarrow>
         map_of (discovery this (events @ [ev])) (makePackageMapKeyForPackage pk) =
           Some \<lparr> packageFolderPath = fp, packageJsonData = pk \<rparr>"
    by (simp add: discovery_snoc moduleHook_def map_of_map_set)
  from one last distinct_discovery [of this events] entries_discovery [of key _ this events]
    moduleHook_idem [of this ev table]
  show ?thesis by blast
qed

text \<open>
  Five events, two of them with the key \<^verbatim>\<open>foo@1.0.0\<close>: the table has one entry for it, at
  the place of the first observation and with the package root of the second.
\<close>

theorem discovery_one_entry_per_key_witness:
  "discovery (constructor None) exampleEvents =
     [fooEntry,
      (''bar@2.0.0'',
        \<lparr> packageFolderPath = ''/app/node_modules/bar'', packageJsonData = barDescriptor \<rparr>)]
   \<and> length (filter (\<lambda>entry. fst entry = ''foo@1.0.0'')
        (discovery (constructor None) exampleEvents)) = 1"
proof -
  have table: "discovery (constructor None) exampleEvents =
     [fooEntry,
      (''bar@2.0.0'',
        \<lparr> packageFolderPath = ''/app/node_modules/bar'', packageJsonData = barDescriptor \<rparr>)]"
    by (simp add: example_defs plugin_defs Let_def)
  have "hookGuard (constructor None) (eventAt exampleDescriptor ''/app/node_modules/baz'')
      = Some (exampleDescriptor, ''/app/node_modules/baz'')"
    by (simp add: example_defs plugin_defs Let_def)
  moreover have "makePackageMapKeyForPackage exampleDescriptor = ''foo@1.0.0''"
    by (simp add: example_defs plugin_defs)
  moreover have "eventAt exampleDescriptor ''/app/node_modules/baz'' \<in> set exampleEvents"
    by (simp add: exampleEvents_def)
  ultimately have "\<exists>ev \<in> set exampleEvents. \<exists>pk fp.
      hookGuard (constructor None) ev = Some (pk, fp)
      \<and> makePackageMapKeyForPackage pk = ''foo@1.0.0''"
    by blast
  with discovery_one_entry_per_key [of "constructor None" exampleEvents "''foo@1.0.0''"]
  have "length (filter (\<lambda>entry. fst entry = ''foo@1.0.0'')
        (discovery (constructor None) exampleEvents)) = 1"
    by simp
  with table show ?thesis by simp
qed

text \<open>
  C4, as the code has it. A module-resolution event passes the hook's guard exactly when
  its package descriptor is present, its package-root path is present, the inclusion
  predicate returns true (the default predicate accepts everything) and the path contains
  the text \<^verbatim>\<open>node_modules\<close> as a substring, anywhere in it; no file system is consulted. An
  event that passes puts its entry under its key, over any entry the key had, and leaves
  every other key as it was; any other event leaves the table unchanged, and no event
  raises an error.
\<close>

theorem moduleHook_gate:
  "(hookGuard this ev = Some (pk, fp) \<longleftrightarrow>
      (\<exists>r. resourceResolveData ev = Some r \<and> descriptionFileData r = Some pk
         \<and> descriptionFileRoot r = Some fp)
      \<and> this_packageFilterFunction this pk fp
      \<and> sublist ''node_modules'' fp)
   \<and> (hookGuard this ev = Some (pk, fp) \<longrightarrow>
        moduleHook this ev table =
          map_set (makePackageMapKeyForPackage pk)
            \<lparr> packageFolderPath = fp, packageJsonData = pk \<rparr> table
        \<and> map_of (moduleHook this ev table) (makePackageMapKeyForPackage pk) =
            Some \<lparr> packageFolderPath = fp, packageJsonData = pk \<rparr>
        \<and> (\<forall>k. k \<noteq> makePackageMapKeyForPackage pk \<longrightarrow>
              map_of (moduleHook this ev table) k = map_of table k))
   \<and> (hookGuard this ev = None \<longrightarrow> moduleHook this ev table = table)
   \<and> this_packageFilterFunction (constructor None) pk fp"
proof -
  have accepts: "this_packageFilterFunction (constructor None) pk fp"
    by (simp add: constructor_def DEFAULT_PACKAGE_FILTER_FUNCTION_def)
  have passes: "hookGuard this ev = Some (pk, fp) \<longrightarrow>
        moduleHook this ev table =
          map_set (makePackageMapKeyForPackage pk)
            \<lparr> packageFolderPath = fp, packageJsonData = pk \<rparr> table
        \<and> map_of (moduleHook this ev table) (makePackageMapKeyForPackage pk) =
            Some \<lparr> packageFolderPath = fp, packageJsonData = pk \<rparr>
        \<and> (\<forall>k. k \<noteq> makePackageMapKeyForPackage pk \<longrightarrow>
              map_of (moduleHook this ev table) k = map_of table k)"
    by (simp add: moduleHook_def map_of_map_set)
  have skipped: "hookGuard this ev = None \<longrightarrow> moduleHook this ev table = table"
    by (simp add: moduleHook_def)
  from hookGuard_iff [of this ev pk fp] accepts passes skipped show ?thesis
    by blast
qed

text \<open>
  An event under \<^verbatim>\<open>node_modules\<close> is recorded; an event outside it and an event with no
  resolve data leave the table empty.
\<close>

theorem moduleHook_gate_witness:
  "moduleHook (constructor None) (eventAt exampleDescriptor ''/app/node_modules/foo'') [] =
     [fooEntry]
   \<and> moduleHook (constructor None) (eventAt exampleDescriptor ''/app/src/foo'') [] = []
   \<and> moduleHook (constructor None) \<lparr> resourceResolveData = None \<rparr> [] = []"
proof -
  have a: "sublist ''node_modules'' ''/app/node_modules/foo''"
    by (simp add: str_includes_sublist [symmetric])
  have k: "makePackageMapKeyForPackage exampleDescriptor = ''foo@1.0.0''"
    by (simp add: makePackageMapKeyForPackage_def exampleDescriptor_def)
  have 1: "hookGuard (constructor None) (eventAt exampleDescriptor ''/app/node_modules/foo'')
      = Some (exampleDescriptor, ''/app/node_modules/foo'')"
    using moduleHook_gate [of "constructor None"
        "eventAt exampleDescriptor ''/app/node_modules/foo''"
        exampleDescriptor "''/app/node_modules/foo''" "[]"] a
    by (simp add: eventAt_def)
  have 2: "hookGuard (constructor None) (eventAt exampleDescriptor ''/app/src/foo'') = None"
    by (simp add: hookGuard_def eventAt_def Let_def)
  have 3: "hookGuard (constructor None) \<lparr> resourceResolveData = None \<rparr> = None"
    by (simp add: hookGuard_def)
  show ?thesis
    using moduleHook_gate [of "constructor None"
        "eventAt exampleDescriptor ''/app/node_modules/foo''"
        exampleDescriptor "''/app/node_modules/foo''" "[]"]
      moduleHook_gate [of "constructor None" "eventAt exampleDescriptor ''/app/src/foo''"
        undefined undefined "[]"]
      moduleHook_gate [of "constructor None" "\<lparr> resourceResolveData = None \<rparr>"
        undefined undefined "[]"]
      1 2 3 k
    by (simp add: fooEntry_def)
qed

text \<open>
  The claim as the spec states it (a path-segment match) fails for a package root with a
  segment that only contains the text: no segment of \<^verbatim>\<open>/work/node_modules_backup/foo\<close> is
  named \<^verbatim>\<open>node_modules\<close>, and the hook records the package all the same.
\<close>

theorem substring_not_segment_counterexample:
  "\<not> spec_pathSegmentMatch ''/work/node_modules_backup/foo''
   \<and> moduleHook (constructor None)
        (eventAt exampleDescriptor ''/work/node_modules_backup/foo'') [] =
     [(''foo@1.0.0'',
       \<lparr> packageFolderPath = ''/work/node_modules_backup/foo'',
         packageJsonData = exampleDescriptor \<rparr>)]"
  by (simp add: spec_pathSegmentMatch_def pathSegments_def moduleHook_def hookGuard_def
      eventAt_def Let_def constructor_def DEFAULT_PACKAGE_FILTER_FUNCTION_def
      makePackageMapKeyForPackage_def exampleDescriptor_def)

subsection \<open>Enrichment\<close>

text \<open>
  C3, as the code has it. The derived license string is the scalar \<^verbatim>\<open>license\<close> field when
  that is present and not the empty string; otherwise the \<^verbatim>\<open>licenses\<close> field itself when
  it is a string; otherwise, when \<^verbatim>\<open>licenses\<close> has exactly one entry, that entry's type;
  otherwise, when it has two or more entries, all the types joined with \<^verbatim>\<open>" OR "\<close> and
  wrapped in parentheses; otherwise absent.
\<close>

theorem parseLicense_derivation:
  "(truthy (license d) \<longrightarrow> parseLicense d = license d)
   \<and> (\<not> truthy (license d) \<and> licenses d = Some (LicensesString s) \<longrightarrow> parseLicense d = Some s)
   \<and> (\<not> truthy (license d) \<and> licenses d = Some (LicensesArray [e]) \<longrightarrow>
        parseLicense d = Some (type e))
   \<and> (\<not> truthy (license d) \<and> licenses d = Some (LicensesArray ls) \<and> 2 \<le> length ls \<longrightarrow>
        parseLicense d = Some (''('' @ join (map type ls) '' OR '' @ '')''))
   \<and> (\<not> truthy (license d) \<and> (licenses d = None \<or> licenses d = Some (LicensesArray [])) \<longrightarrow>
        parseLicense d = None)"
  by (auto simp: parseLicense_def)

text \<open>
  Each case at a descriptor; the first is the scenario of the spec, with licenses
  \<^verbatim>\<open>[{type:"MIT"},{type:"Apache-2.0"}]\<close> and no scalar license.
\<close>

theorem parseLicense_derivation_witness:
  "parseLicense exampleTwoLicenses = Some ''(MIT OR Apache-2.0)''
   \<and> parseLicense (exampleTwoLicenses\<lparr> license := Some ''ISC'' \<rparr>) = Some ''ISC''
   \<and> parseLicense (exampleTwoLicenses\<lparr> licenses := Some (LicensesString ''BSD'') \<rparr>) = Some ''BSD''
   \<and> parseLicense exampleEmptyLicense = Some ''MIT''
   \<and> parseLicense (exampleTwoLicenses\<lparr> licenses := None \<rparr>) = None"
  using parseLicense_derivation [of exampleTwoLicenses undefined undefined
      "[\<lparr> type = ''MIT'', url = [] \<rparr>, \<lparr> type = ''Apache-2.0'', url = [] \<rparr>]"]
    parseLicense_derivation [of "exampleTwoLicenses\<lparr> license := Some ''ISC'' \<rparr>"]
    parseLicense_derivation
      [of "exampleTwoLicenses\<lparr> licenses := Some (LicensesString ''BSD'') \<rparr>" "''BSD''"]
    parseLicense_derivation [of exampleEmptyLicense undefined "\<lparr> type = ''MIT'', url = [] \<rparr>"]
    parseLicense_derivation [of "exampleTwoLicenses\<lparr> licenses := None \<rparr>"]
  by (simp add: exampleTwoLicenses_def exampleEmptyLicense_def)

text \<open>
  The claim as the spec states it (the scalar field whenever it is present) fails for a
  descriptor whose \<^verbatim>\<open>license\<close> is the empty string: the field is present, and the result
  is the type of the single \<^verbatim>\<open>licenses\<close> entry.
\<close>

theorem parseLicense_empty_scalar_counterexample:
  "license exampleEmptyLicense = Some [] \<and> parseLicense exampleEmptyLicense = Some ''MIT''"
  by (simp add: exampleEmptyLicense_def parseLicense_def)

text \<open>
  C8. When the listing of a package folder holds a file name that matches the
  license-filename pattern and no name listed before it matches, the license file chosen
  is that one, joined to the folder's path, whatever names follow it in the listing, other
  matching names included. So of several candidates exactly one is chosen, the one listed
  first.
\<close>

theorem first_license_file_chosen:
  assumes "readdir h modulePath = Inr (Some files)"
    and "files = before @ f # after"
    and "\<forall>x \<in> set before. \<not> LICENSE_FILES_REGEXP_test h x"
    and "LICENSE_FILES_REGEXP_test h f"
  shows "getLicenseFilePathAsync h modulePath = Inr (Some (path_join h modulePath f))"
proof -
  from assms(2-4) have "filter (LICENSE_FILES_REGEXP_test h) files
      = f # filter (LICENSE_FILES_REGEXP_test h) after"
    by simp
  with assms(1) show ?thesis by (rule getLicenseFilePathAsync_first)
qed

text \<open>
  Two folders that both hold \<^verbatim>\<open>LICENSE\<close> and \<^verbatim>\<open>LICENSE.txt\<close>: where \<^verbatim>\<open>LICENSE\<close> is listed
  first it is chosen, where \<^verbatim>\<open>LICENSE.txt\<close> is listed first that one is.
\<close>

theorem first_license_file_chosen_witness:
  "getLicenseFilePathAsync exampleHost ''/app/node_modules/foo''
     = Inr (Some ''/app/node_modules/foo/LICENSE'')
   \<and> getLicenseFilePathAsync exampleHost ''/app/node_modules/bar''
     = Inr (Some ''/app/node_modules/bar/LICENSE.txt'')"
proof -
  have "getLicenseFilePathAsync exampleHost ''/app/node_modules/foo''
     = Inr (Some (path_join exampleHost ''/app/node_modules/foo'' ''LICENSE''))"
    by (rule first_license_file_chosen
          [where files = "[''package.json'', ''LICENSE'', ''LICENSE.txt'']"
             and before = "[''package.json'']" and after = "[''LICENSE.txt'']"])
       (simp_all add: exampleHost_def)
  moreover have "getLicenseFilePathAsync exampleHost ''/app/node_modules/bar''
     = Inr (Some (path_join exampleHost ''/app/node_modules/bar'' ''LICENSE.txt''))"
    by (rule first_license_file_chosen
          [where files = "[''LICENSE.txt'', ''LICENSE'']"
             and before = "[]" and after = "[''LICENSE'']"])
       (simp_all add: exampleHost_def)
  ultimately show ?thesis by (simp add: exampleHost_def)
qed

text \<open>
  C7. For an entry whose package folder lists a license file, with the chosen path not
  empty, the file readable, and a copyright pattern that does not match the empty string
  in the file's text: the record pushed has the full text of the file as its
  \<^verbatim>\<open>licenseSource\<close>, and as its \<^verbatim>\<open>copyright\<close> the first match of the pattern in that text
  or, when there is no match, the author derived from the descriptor.
\<close>

theorem record_with_license_file:
  assumes "readdir h (packageFolderPath e) = Inr (Some files)"
    and "filter (LICENSE_FILES_REGEXP_test h) files = f # others"
    and "path_join h (packageFolderPath e) f \<noteq> []"
    and "readFileAsync h (path_join h (packageFolderPath e) f) = Inr txt"
    and "COPYRIGHT_REGEX_match h txt \<noteq> Some []"
  shows "enrichEntry h (k, e) packages =
      Inr (packages @
        [\<lparr> name = name (packageJsonData e), version = version (packageJsonData e),
            license = parseLicense (packageJsonData e), licenses = None, author = None,
            licenseSource = Some txt,
            copyright = (case COPYRIGHT_REGEX_match h txt of
                           Some firstMatch \<Rightarrow> Some firstMatch
                         | None \<Rightarrow> parsePackageAuthor (packageJsonData e)) \<rparr>])"
proof -
  have "getLicenseFilePathAsync h (packageFolderPath e)
      = Inr (Some (path_join h (packageFolderPath e) f))"
    using assms(1,2) by (rule getLicenseFilePathAsync_first)
  with assms(3-5) show ?thesis
    by (cases "COPYRIGHT_REGEX_match h txt")
       (simp_all add: enrichEntry_def Let_def parseCopyright_def js_or_def)
qed

text \<open>
  The scenario of the spec: the license file reads
  \<^verbatim>\<open>Copyright (c) 2020 Acme Corp\<close>, a line break, \<^verbatim>\<open>MIT License text...\<close>.
\<close>

theorem record_with_license_file_witness:
  "enrichEntry exampleHost fooEntry [] = Inr [fooRecord1]
   \<and> licenseSource fooRecord1
       = Some (''Copyright (c) 2020 Acme Corp'' @ [CHR 0x0A] @ ''MIT License text...'')
   \<and> copyright fooRecord1 = Some ''Copyright (c) 2020 Acme Corp''"
proof -
  have "enrichEntry exampleHost (''foo@1.0.0'', snd fooEntry) [] = Inr ([] @
        [\<lparr> name = name (packageJsonData (snd fooEntry)),
            version = version (packageJsonData (snd fooEntry)),
            license = parseLicense (packageJsonData (snd fooEntry)), licenses = None,
            author = None,
            licenseSource =
              Some (''Copyright (c) 2020 Acme Corp'' @ [CHR 0x0A] @ ''MIT License text...''),
            copyright =
              (case COPYRIGHT_REGEX_match exampleHost
                      (''Copyright (c) 2020 Acme Corp'' @ [CHR 0x0A] @ ''MIT License text...'') of
                 Some firstMatch \<Rightarrow> Some firstMatch
               | None \<Rightarrow> parsePackageAuthor (packageJsonData (snd fooEntry))) \<rparr>])"
    by (rule record_with_license_file
          [where files = "[''package.json'', ''LICENSE'', ''LICENSE.txt'']"
             and f = "''LICENSE''" and others = "[''LICENSE.txt'']"])
       (simp_all add: exampleHost_def fooEntry_def)
  then show ?thesis
    by (simp add: exampleHost_def fooEntry_def fooRecord1_def exampleDescriptor_def
        parseLicense_def)
qed

text \<open>
  C9. For an entry whose package folder lists no file that matches the license-filename
  pattern (or gives no listing), the record pushed has no \<^verbatim>\<open>licenseSource\<close>, and its
  \<^verbatim>\<open>copyright\<close> is the author derived from the descriptor: a string author verbatim, the
  \<^verbatim>\<open>name\<close> of an object author, otherwise absent.
\<close>

theorem record_without_license_file:
  assumes "readdir h (packageFolderPath e) = Inr listing"
    and "\<forall>files. listing = Some files \<longrightarrow> filter (LICENSE_FILES_REGEXP_test h) files = []"
  shows "enrichEntry h (k, e) packages =
      Inr (packages @
        [\<lparr> name = name (packageJsonData e), version = version (packageJsonData e),
            license = parseLicense (packageJsonData e), licenses = None, author = None,
            licenseSource = None,
            copyright = parsePackageAuthor (packageJsonData e) \<rparr>])
    \<and> (\<forall>s. author (packageJsonData e) = Some (AuthorString s) \<longrightarrow>
          parsePackageAuthor (packageJsonData e) = Some s)
    \<and> (\<forall>n. author (packageJsonData e) = Some (AuthorObject n) \<longrightarrow>
          parsePackageAuthor (packageJsonData e) = n)
    \<and> (author (packageJsonData e) = None \<longrightarrow> parsePackageAuthor (packageJsonData e) = None)"
proof -
  have "getLicenseFilePathAsync h (packageFolderPath e) = Inr None"
    using assms by (auto intro: getLicenseFilePathAsync_none)
  then show ?thesis
    by (simp add: enrichEntry_def Let_def parsePackageAuthor_def)
qed

text \<open>
  The scenario of the spec: the descriptor \<^verbatim>\<open>foo\<close>, \<^verbatim>\<open>1.0.0\<close>, license \<^verbatim>\<open>MIT\<close>, author
  \<^verbatim>\<open>Jane Doe\<close>, in a folder with no license file.
\<close>

theorem record_without_license_file_witness:
  "enrichEntry exampleHost bazEntry [] =
     Inr [\<lparr> name = ''foo'', version = ''1.0.0'', license = Some ''MIT'', licenses = None,
            author = None, licenseSource = None, copyright = Some ''Jane Doe'' \<rparr>]"
  using record_without_license_file [where h = exampleHost and e = "snd bazEntry"
      and listing = "Some [''index.js'']" and k = "''foo@1.0.0''" and packages = "[]"]
  by (simp add: exampleHost_def bazEntry_def exampleDescriptor_def parseLicense_def)

subsection \<open>Reporting\<close>

lemma inventory_emitted_when_resolved:
  assumes "fst (processAssets h this table c) = None"
  shows "prefix (assets c @ [(this_outputFileName this,
              JSON_stringify h \<lparr> file_name = None, file_version = None,
                embeddedDependencies = sortBy (snd (enrichment h table)) name \<rparr>)])
           (assets (snd (processAssets h this table c)))"
proof (cases "fst (enrichment h table)")
  case None
  then have "case fst (enrichment h table) of
             None \<Rightarrow> [] = ([]::string list)
           | Some e \<Rightarrow>
               emittedError ''Failed to process embedded dependencies'' e = Inr undefined
               \<and> [] = [undefined]"
    by simp
  from inventory_emitted(1) [where reported = "[]" and message = undefined, OF this]
  show ?thesis .
next
  case (Some e)
  show ?thesis
  proof (cases "emittedError ''Failed to process embedded dependencies'' e")
    case (Inl typeError)
    from processAssets_first_handler_throws [OF Some Inl] assms show ?thesis by simp
  next
    case (Inr message)
    with Some have "case fst (enrichment h table) of
             None \<Rightarrow> [message] = []
           | Some e \<Rightarrow>
               emittedError ''Failed to process embedded dependencies'' e = Inr message
               \<and> [message] = [message]"
      by simp
    from inventory_emitted(1) [where reported = "[message]" and message = message, OF this]
    show ?thesis .
  qed
qed

text \<open>
  C2, as the code has it. Whatever order the records were pushed in, the array that the
  hook emits (when it does not reject) is the array of the pushed records sorted by name:
  ascending by name, the same records, and records with equal names in the order they were
  pushed in. So two runs that push the same records give the same output order when the
  names of the records are pairwise distinct.
\<close>

theorem sorted_by_name_stable:
  "sorted (map name (sortBy (snd (enrichment h table)) name))
   \<and> mset (sortBy (snd (enrichment h table)) name) = mset (snd (enrichment h table))
   \<and> filter (\<lambda>r. name r = n) (sortBy (snd (enrichment h table)) name)
       = filter (\<lambda>r. name r = n) (snd (enrichment h table))
   \<and> (mset (snd (enrichment h' table')) = mset (snd (enrichment h table))
        \<and> distinct (map name (snd (enrichment h table))) \<longrightarrow>
        sortBy (snd (enrichment h' table')) name = sortBy (snd (enrichment h table)) name)
   \<and> (fst (processAssets h this table c) = None \<longrightarrow>
        prefix (assets c @ [(this_outputFileName this,
              JSON_stringify h \<lparr> file_name = None, file_version = None,
                embeddedDependencies = sortBy (snd (enrichment h table)) name \<rparr>)])
           (assets (snd (processAssets h this table c))))"
proof -
  have "sortBy records' name = sortBy records name"
    if m: "mset records' = mset records" and d: "distinct (map name records)"
    for records records' :: "IPackageData list"
    unfolding sortBy_def
  proof (rule properties_for_sort_key)
    show "mset (sort_key name records) = mset records'" using m by simp
    show "sorted (map name (sort_key name records))" by simp
    fix k assume "k \<in> set (sort_key name records)"
    have "filter (\<lambda>x. name k = name x) (sort_key name records)
        = filter (\<lambda>x. name x = name k) (sort_key name records)"
      by (rule filter_cong) auto
    also have "\<dots> = filter (\<lambda>x. name x = name k) records" by (rule sort_key_stable)
    also have "\<dots> = filter (\<lambda>x. name x = name k) records'"
      using same_key_filter [OF d m] by simp
    also have "\<dots> = filter (\<lambda>x. name k = name x) records'"
      by (rule filter_cong) auto
    finally show "filter (\<lambda>x. name k = name x) (sort_key name records)
        = filter (\<lambda>x. name k = name x) records'" .
  qed
  from this [of "snd (enrichment h' table')" "snd (enrichment h table)"]
  have "mset (snd (enrichment h' table')) = mset (snd (enrichment h table))
        \<and> distinct (map name (snd (enrichment h table))) \<longrightarrow>
        sortBy (snd (enrichment h' table')) name = sortBy (snd (enrichment h table)) name"
    by blast
  moreover have "filter (\<lambda>r. name r = n) (sortBy (snd (enrichment h table)) name)
       = filter (\<lambda>r. name r = n) (snd (enrichment h table))"
    by (simp add: sortBy_def sort_key_stable)
  moreover have "sorted (map name (sortBy (snd (enrichment h table)) name))"
    and "mset (sortBy (snd (enrichment h table)) name) = mset (snd (enrichment h table))"
    by (simp_all add: sortBy_def)
  ultimately show ?thesis
    using inventory_emitted_when_resolved [of h this table c]
    by blast
qed

text \<open>
  Two packages with different names, discovered in either order: the same inventory.
\<close>

theorem sorted_by_name_stable_witness:
  "sortBy (snd (enrichment exampleHost (discovery (constructor None) fooAndBar))) name
     = [barRecord, fooRecord1]
   \<and> sortBy (snd (enrichment exampleHost (discovery (constructor None) (rev fooAndBar)))) name
     = [barRecord, fooRecord1]"
proof -
  have one: "enrichment exampleHost (discovery (constructor None) fooAndBar)
      = (None, [fooRecord1, barRecord])"
    by (simp add: example_defs plugin_defs Let_def)
  have other: "enrichment exampleHost (discovery (constructor None) (rev fooAndBar))
      = (None, [barRecord, fooRecord1])"
    by (simp add: example_defs plugin_defs Let_def)
  have "mset [barRecord, fooRecord1] = mset [fooRecord1, barRecord]"
    by simp
  moreover have "distinct (map name [fooRecord1, barRecord])"
    by (simp add: fooRecord1_def barRecord_def)
  ultimately have "sortBy (snd (enrichment exampleHost
        (discovery (constructor None) (rev fooAndBar)))) name
      = sortBy (snd (enrichment exampleHost (discovery (constructor None) fooAndBar))) name"
    using sorted_by_name_stable [where h = exampleHost and h' = exampleHost
        and table = "discovery (constructor None) fooAndBar"
        and table' = "discovery (constructor None) (rev fooAndBar)"] one other
    by simp
  moreover have "sortBy [fooRecord1, barRecord] name = [barRecord, fooRecord1]"
    by (simp add: sortBy_def fooRecord1_def barRecord_def)
  ultimately show ?thesis using one by simp
qed

text \<open>
  The claim as the spec states it (the same output order for every discovery order) fails
  when two versions of one package are bundled. Neither folder has a license file, so both
  callbacks settle after one read, in the order of the table: the two discovery orders
  give the same two records, and each run emits them in its own discovery order.
\<close>

theorem equal_names_keep_discovery_order_counterexample:
  "sortBy (snd (enrichment exampleHost (discovery (constructor None) twoVersionsOfFoo))) name
     = [bazRecord, fooRecord2]
   \<and> sortBy (snd (enrichment exampleHost (discovery (constructor None) (rev twoVersionsOfFoo)))) name
     = [fooRecord2, bazRecord]
   \<and> [bazRecord, fooRecord2] \<noteq> [fooRecord2, bazRecord]"
  by (simp add: example_defs plugin_defs Let_def)

text \<open>
  C5, as the code has it. The array that the hook sorts holds the records pushed by the
  time it resumes. When no per-entry operation throws there is one record for each entry,
  and the inventory asset is emitted with them, sorted by name. When one throws, the first
  to throw is caught at the batch level; the records pushed are those of every entry
  completed before the failing one, followed by those of the entries that complete after
  it and before the \<^verbatim>\<open>catch\<close> block runs; and when the thrown value is one whose message the
  handler can build (a string and an \<^verbatim>\<open>Error\<close> always are), the error, which mentions
  \<^verbatim>\<open>Failed to process embedded dependencies\<close>, is pushed on the compilation's errors and
  the inventory asset is emitted with exactly the records pushed, sorted by name, none when
  there is none. A table with an entry that throws never ends without a caught exception.
\<close>

theorem partial_records_emitted:
  "sorted (map name (sortBy (snd (enrichment h table)) name))
   \<and> mset (sortBy (snd (enrichment h table)) name) = mset (snd (enrichment h table))
   \<and> (fst (enrichment h table) = None \<longrightarrow>
        (\<forall>x \<in> set table. \<forall>e. enrichEntry h x [] \<noteq> Inl e)
        \<and> snd (enrichment h table) = recordsOf h (sort_key (settledAt h) table)
        \<and> map name (snd (enrichment h table))
            = map (\<lambda>x. name (packageJsonData (snd x))) (sort_key (settledAt h) table)
        \<and> prefix (assets c @ [(this_outputFileName this,
              JSON_stringify h \<lparr> file_name = None, file_version = None,
                embeddedDependencies = sortBy (snd (enrichment h table)) name \<rparr>)])
             (assets (snd (processAssets h this table c))))
   \<and> (\<forall>e. fst (enrichment h table) = Some e \<longrightarrow>
        (\<exists>before failing after.
            sort_key (settledAt h) table = before @ failing # after
          \<and> (\<forall>x \<in> set before. \<forall>e'. enrichEntry h x [] \<noteq> Inl e')
          \<and> enrichEntry h failing [] = Inl e
          \<and> snd (enrichment h table) =
              recordsOf h before
              @ recordsOf h (takeWhile
                  (\<lambda>x. settledAt h x \<le> settledAt h failing + resumeAfter h) after)
          \<and> map name (recordsOf h before) = map (\<lambda>x. name (packageJsonData (snd x))) before)
        \<and> (\<forall>message. emittedError ''Failed to process embedded dependencies'' e = Inr message \<longrightarrow>
              sublist ''Failed to process embedded dependencies'' message
            \<and> prefix (errors c @ [message]) (errors (snd (processAssets h this table c)))
            \<and> prefix (assets c @ [(this_outputFileName this,
                  JSON_stringify h \<lparr> file_name = None, file_version = None,
                    embeddedDependencies = sortBy (snd (enrichment h table)) name \<rparr>)])
                 (assets (snd (processAssets h this table c))))
        \<and> ((\<exists>s. e = ThrownString s) \<or> (\<exists>msg stack. e = ThrownError msg stack) \<longrightarrow>
              (\<exists>message. emittedError ''Failed to process embedded dependencies'' e = Inr message)))
   \<and> ((\<exists>x \<in> set table. \<exists>e. enrichEntry h x [] = Inl e) \<longrightarrow> fst (enrichment h table) \<noteq> None)"
proof -
  have sorted: "sorted (map name (sortBy (snd (enrichment h table)) name))"
    and perm: "mset (sortBy (snd (enrichment h table)) name) = mset (snd (enrichment h table))"
    by (simp_all add: sortBy_def)
  have complete: "(\<forall>x \<in> set table. \<forall>e. enrichEntry h x [] \<noteq> Inl e)
        \<and> snd (enrichment h table) = recordsOf h (sort_key (settledAt h) table)
        \<and> map name (snd (enrichment h table))
            = map (\<lambda>x. name (packageJsonData (snd x))) (sort_key (settledAt h) table)
        \<and> prefix (assets c @ [(this_outputFileName this,
              JSON_stringify h \<lparr> file_name = None, file_version = None,
                embeddedDependencies = sortBy (snd (enrichment h table)) name \<rparr>)])
             (assets (snd (processAssets h this table c)))"
    if none: "fst (enrichment h table) = None"
  proof -
    from enrichment_cases [of h table] none
    have all: "\<forall>x \<in> set table. \<forall>e. enrichEntry h x [] \<noteq> Inl e"
      and recs: "snd (enrichment h table) = recordsOf h (sort_key (settledAt h) table)"
      by auto
    from all have "\<forall>x \<in> set (sort_key (settledAt h) table). \<forall>e. enrichEntry h x [] \<noteq> Inl e"
      by simp
    from recordsOf_all_pushed_names [OF this] recs
    have names: "map name (snd (enrichment h table))
            = map (\<lambda>x. name (packageJsonData (snd x))) (sort_key (settledAt h) table)"
      by simp
    from none have "case fst (enrichment h table) of
             None \<Rightarrow> [] = ([]::string list)
           | Some e \<Rightarrow>
               emittedError ''Failed to process embedded dependencies'' e = Inr undefined
               \<and> [] = [undefined]"
      by simp
    from inventory_emitted(1) [where reported = "[]" and message = undefined, OF this]
      all recs names
    show ?thesis by simp
  qed
  have split: "\<exists>before failing after.
            sort_key (settledAt h) table = before @ failing # after
          \<and> (\<forall>x \<in> set before. \<forall>e'. enrichEntry h x [] \<noteq> Inl e')
          \<and> enrichEntry h failing [] = Inl e
          \<and> snd (enrichment h table) =
              recordsOf h before
              @ recordsOf h (takeWhile
                  (\<lambda>x. settledAt h x \<le> settledAt h failing + resumeAfter h) after)
          \<and> map name (recordsOf h before) = map (\<lambda>x. name (packageJsonData (snd x))) before"
    if some: "fst (enrichment h table) = Some e" for e
  proof -
    from enrichment_cases [of h table] some obtain before failing after e0 where
      s: "sort_key (settledAt h) table = before @ failing # after"
      and b: "\<forall>x \<in> set before. \<forall>e'. enrichEntry h x [] \<noteq> Inl e'"
      and f: "enrichEntry h failing [] = Inl e0"
      and r: "enrichment h table =
           (Some e0, recordsOf h before
              @ recordsOf h (takeWhile
                  (\<lambda>x. settledAt h x \<le> settledAt h failing + resumeAfter h) after))"
      by auto
    from r some have "e0 = e" by simp
    with s b f r recordsOf_all_pushed_names [OF b]
    have "sort_key (settledAt h) table = before @ failing # after
          \<and> (\<forall>x \<in> set before. \<forall>e'. enrichEntry h x [] \<noteq> Inl e')
          \<and> enrichEntry h failing [] = Inl e
          \<and> snd (enrichment h table) =
              recordsOf h before
              @ recordsOf h (takeWhile
                  (\<lambda>x. settledAt h x \<le> settledAt h failing + resumeAfter h) after)
          \<and> map name (recordsOf h before) = map (\<lambda>x. name (packageJsonData (snd x))) before"
      by simp
    then show ?thesis by blast
  qed
  have reported: "sublist ''Failed to process embedded dependencies'' message
            \<and> prefix (errors c @ [message]) (errors (snd (processAssets h this table c)))
            \<and> prefix (assets c @ [(this_outputFileName this,
                  JSON_stringify h \<lparr> file_name = None, file_version = None,
                    embeddedDependencies = sortBy (snd (enrichment h table)) name \<rparr>)])
                 (assets (snd (processAssets h this table c)))"
    if some: "fst (enrichment h table) = Some e"
      and built: "emittedError ''Failed to process embedded dependencies'' e = Inr message"
    for e message
  proof -
    from some built have "case fst (enrichment h table) of
             None \<Rightarrow> [message] = []
           | Some e \<Rightarrow>
               emittedError ''Failed to process embedded dependencies'' e = Inr message
               \<and> [message] = [message]"
      by simp
    from inventory_emitted [where reported = "[message]" and message = message, OF this]
      emittedError_mentions [OF built]
    show ?thesis by simp
  qed
  have renders: "\<exists>message. emittedError ''Failed to process embedded dependencies'' e = Inr message"
    if "(\<exists>s. e = ThrownString s) \<or> (\<exists>msg stack. e = ThrownError msg stack)" for e
    using that emittedError_string emittedError_Error by blast
  have caught: "fst (enrichment h table) \<noteq> None"
    if "\<exists>x \<in> set table. \<exists>e. enrichEntry h x [] = Inl e"
    using enrichment_cases [of h table] that by auto
  have c3: "fst (enrichment h table) = None \<longrightarrow>
        (\<forall>x \<in> set table. \<forall>e. enrichEntry h x [] \<noteq> Inl e)
        \<and> snd (enrichment h table) = recordsOf h (sort_key (settledAt h) table)
        \<and> map name (snd (enrichment h table))
            = map (\<lambda>x. name (packageJsonData (snd x))) (sort_key (settledAt h) table)
        \<and> prefix (assets c @ [(this_outputFileName this,
              JSON_stringify h \<lparr> file_name = None, file_version = None,
                embeddedDependencies = sortBy (snd (enrichment h table)) name \<rparr>)])
             (assets (snd (processAssets h this table c)))"
    by (rule impI) (rule complete)
  have c4: "\<forall>e. fst (enrichment h table) = Some e \<longrightarrow>
        (\<exists>before failing after.
            sort_key (settledAt h) table = before @ failing # after
          \<and> (\<forall>x \<in> set before. \<forall>e'. enrichEntry h x [] \<noteq> Inl e')
          \<and> enrichEntry h failing [] = Inl e
          \<and> snd (enrichment h table) =
              recordsOf h before
              @ recordsOf h (takeWhile
                  (\<lambda>x. settledAt h x \<le> settledAt h failing + resumeAfter h) after)
          \<and> map name (recordsOf h before) = map (\<lambda>x. name (packageJsonData (snd x))) before)
        \<and> (\<forall>message. emittedError ''Failed to process embedded dependencies'' e = Inr message \<longrightarrow>
              sublist ''Failed to process embedded dependencies'' message
            \<and> prefix (errors c @ [message]) (errors (snd (processAssets h this table c)))
            \<and> prefix (assets c @ [(this_outputFileName this,
                  JSON_stringify h \<lparr> file_name = None, file_version = None,
                    embeddedDependencies = sortBy (snd (enrichment h table)) name \<rparr>)])
                 (assets (snd (processAssets h this table c))))
        \<and> ((\<exists>s. e = ThrownString s) \<or> (\<exists>msg stack. e = ThrownError msg stack) \<longrightarrow>
              (\<exists>message. emittedError ''Failed to process embedded dependencies'' e = Inr message))"
  proof (intro allI impI conjI)
    fix e assume "fst (enrichment h table) = Some e"
    then show "\<exists>before failing after.
            sort_key (settledAt h) table = before @ failing # after
          \<and> (\<forall>x \<in> set before. \<forall>e'. enrichEntry h x [] \<noteq> Inl e')
          \<and> enrichEntry h failing [] = Inl e
          \<and> snd (enrichment h table) =
              recordsOf h before
              @ recordsOf h (takeWhile
                  (\<lambda>x. settledAt h x \<le> settledAt h failing + resumeAfter h) after)
          \<and> map name (recordsOf h before) = map (\<lambda>x. name (packageJsonData (snd x))) before"
      by (rule split)
  next
    fix e message
    assume s: "fst (enrichment h table) = Some e"
      and m: "emittedError ''Failed to process embedded dependencies'' e = Inr message"
    from reported [OF s m]
    show "sublist ''Failed to process embedded dependencies'' message"
      and "prefix (errors c @ [message]) (errors (snd (processAssets h this table c)))"
      and "prefix (assets c @ [(this_outputFileName this,
                  JSON_stringify h \<lparr> file_name = None, file_version = None,
                    embeddedDependencies = sortBy (snd (enrichment h table)) name \<rparr>)])
                 (assets (snd (processAssets h this table c)))"
      by simp_all
  next
    fix e assume "(\<exists>s. e = ThrownString s) \<or> (\<exists>msg stack. e = ThrownError msg stack)"
    then show "\<exists>message. emittedError ''Failed to process embedded dependencies'' e = Inr message"
      by (rule renders)
  qed
  have c5: "(\<exists>x \<in> set table. \<exists>e. enrichEntry h x [] = Inl e) \<longrightarrow>
      fst (enrichment h table) \<noteq> None"
    by (rule impI) (rule caught)
  show ?thesis
    by (intro conjI sorted perm c3 c4 c5)
qed

text \<open>
  A table of four entries whose third folder cannot be listed: one entry has pushed its
  record before, the two entries that read a license file have not; that record is
  emitted and the error is reported. With the failing entry and an entry that reads a
  license file only, the inventory is emitted with no record.
\<close>

theorem partial_records_emitted_witness:
  "enrichment exampleHost failingTable = (Some (ThrownError ''ENOENT'' None), [quxRecord])
   \<and> processAssets exampleHost (constructor None) failingTable \<lparr> assets = [], errors = [] \<rparr>
     = (None,
        \<lparr> assets = [(''embedded-dependencies.json'', ''qux@3.0.0'')],
          errors = [''[embedded-dependencies-webpack-plugin]: ''
                     @ ''Failed to process embedded dependencies: ENOENT'' @ [CHR 0x0A]] \<rparr>)
   \<and> processAssets exampleHost (constructor None) [goneEntry, fooEntry]
        \<lparr> assets = [], errors = [] \<rparr>
     = (None,
        \<lparr> assets = [(''embedded-dependencies.json'', [])],
          errors = [''[embedded-dependencies-webpack-plugin]: ''
                     @ ''Failed to process embedded dependencies: ENOENT'' @ [CHR 0x0A]] \<rparr>)"
proof -
  have e: "enrichment exampleHost failingTable
      = (Some (ThrownError ''ENOENT'' None), [quxRecord])"
    by (simp add: example_defs plugin_defs Let_def)
  have m: "emittedError ''Failed to process embedded dependencies'' (ThrownError ''ENOENT'' None)
      = Inr (''[embedded-dependencies-webpack-plugin]: ''
               @ ''Failed to process embedded dependencies: ENOENT'' @ [CHR 0x0A])"
    by (simp add: plugin_defs)
  have p: "processAssets exampleHost (constructor None) failingTable
        \<lparr> assets = [], errors = [] \<rparr>
     = (None,
        \<lparr> assets = [(''embedded-dependencies.json'', ''qux@3.0.0'')],
          errors = [''[embedded-dependencies-webpack-plugin]: ''
                     @ ''Failed to process embedded dependencies: ENOENT'' @ [CHR 0x0A]] \<rparr>)"
    by (simp add: example_defs plugin_defs Let_def)
  have q: "processAssets exampleHost (constructor None) [goneEntry, fooEntry]
        \<lparr> assets = [], errors = [] \<rparr>
     = (None,
        \<lparr> assets = [(''embedded-dependencies.json'', [])],
          errors = [''[embedded-dependencies-webpack-plugin]: ''
                     @ ''Failed to process embedded dependencies: ENOENT'' @ [CHR 0x0A]] \<rparr>)"
    by (simp add: example_defs plugin_defs Let_def)
  from partial_records_emitted [of exampleHost failingTable "\<lparr> assets = [], errors = [] \<rparr>"
      "constructor None"] e m
  have "prefix ([] @ [''[embedded-dependencies-webpack-plugin]: ''
                     @ ''Failed to process embedded dependencies: ENOENT'' @ [CHR 0x0A]])
      (errors (snd (processAssets exampleHost (constructor None) failingTable
         \<lparr> assets = [], errors = [] \<rparr>)))"
    by simp
  with e p q show ?thesis by simp
qed

text \<open>
  The claim as the spec states it (the inventory holds exactly the records completed
  before the failure) fails when another callback settles between the rejection and the
  \<^verbatim>\<open>catch\<close> block: here the entry that cannot be listed is the first to settle, so no record
  was completed before the failure, and the inventory emitted holds the record of the
  second entry.
\<close>

theorem record_pushed_after_failure_counterexample:
  "sort_key (settledAt exampleHost) failingFirstTable = [goneEntry, quxEntry]
   \<and> enrichEntry exampleHost goneEntry [] = Inl (ThrownError ''ENOENT'' None)
   \<and> enrichment exampleHost failingFirstTable
       = (Some (ThrownError ''ENOENT'' None), [quxRecord])
   \<and> assets (snd (processAssets exampleHost (constructor None) failingFirstTable
        \<lparr> assets = [], errors = [] \<rparr>))
     = [(''embedded-dependencies.json'', ''qux@3.0.0'')]"
  by (simp add: example_defs plugin_defs Let_def)

text \<open>
  What the hook does when license-file generation is enabled and the template function
  throws, the first handler having thrown nothing: the inventory asset is emitted and no
  license asset is, whatever was thrown. When the handler can build the message for the
  thrown value, the hook resolves and the last error on the compilation is that message,
  which contains \<^verbatim>\<open>Failed to generate license file\<close>; for a thrown string and for a thrown
  \<^verbatim>\<open>Error\<close> the message is built and contains the string, or the message of the \<^verbatim>\<open>Error\<close>.
  When \<^verbatim>\<open>JSON.stringify\<close> throws on the thrown value, the handler throws: no error is pushed
  and the hook rejects with the \<^verbatim>\<open>TypeError\<close>.
\<close>

theorem template_failure_reported:
  assumes "this_generateLicenseFile this"
    and "this_generateLicenseFileFunction this (sortBy (snd (enrichment h table)) name) = Inl e"
    and "case fst (enrichment h table) of
           None \<Rightarrow> reported = []
         | Some e0 \<Rightarrow>
             emittedError ''Failed to process embedded dependencies'' e0 = Inr message
             \<and> reported = [message]"
  shows "assets (snd (processAssets h this table c)) =
      assets c @ [(this_outputFileName this,
        JSON_stringify h \<lparr> file_name = None, file_version = None,
          embeddedDependencies = sortBy (snd (enrichment h table)) name \<rparr>)]
    \<and> (\<forall>message2. emittedError ''Failed to generate license file'' e = Inr message2 \<longrightarrow>
          fst (processAssets h this table c) = None
        \<and> errors (snd (processAssets h this table c)) = errors c @ reported @ [message2]
        \<and> sublist ''Failed to generate license file'' message2)
    \<and> (\<forall>s. e = ThrownString s \<longrightarrow>
          (\<exists>message2. emittedError ''Failed to generate license file'' e = Inr message2
             \<and> sublist s message2))
    \<and> (\<forall>msg stack. e = ThrownError msg stack \<longrightarrow>
          (\<exists>message2. emittedError ''Failed to generate license file'' e = Inr message2
             \<and> sublist msg message2))
    \<and> (\<forall>typeError. emittedError ''Failed to generate license file'' e = Inl typeError \<longrightarrow>
          fst (processAssets h this table c) = Some typeError
        \<and> errors (snd (processAssets h this table c)) = errors c @ reported)"
proof -
  have a: "assets (snd (processAssets h this table c)) =
      assets c @ [(this_outputFileName this,
        JSON_stringify h \<lparr> file_name = None, file_version = None,
          embeddedDependencies = sortBy (snd (enrichment h table)) name \<rparr>)]"
    unfolding processAssets_handled [OF assms(3)] using assms(1,2)
    by (simp add: Let_def split: sum.splits)
  have built: "fst (processAssets h this table c) = None
        \<and> errors (snd (processAssets h this table c)) = errors c @ reported @ [message2]
        \<and> sublist ''Failed to generate license file'' message2"
    if "emittedError ''Failed to generate license file'' e = Inr message2" for message2
    unfolding processAssets_handled [OF assms(3)] using assms(1,2) that emittedError_mentions [OF that]
    by (simp add: Let_def)
  have thrown: "fst (processAssets h this table c) = Some typeError
        \<and> errors (snd (processAssets h this table c)) = errors c @ reported"
    if "emittedError ''Failed to generate license file'' e = Inl typeError" for typeError
    unfolding processAssets_handled [OF assms(3)] using assms(1,2) that
    by (simp add: Let_def)
  from a built thrown show ?thesis
    using emittedError_string emittedError_Error by blast
qed

text \<open>
  The scenario of the spec: \<^verbatim>\<open>generateLicenseFile: true\<close> and a template function that
  throws \<^verbatim>\<open>new Error("bad template")\<close>.
\<close>

theorem template_failure_reported_witness:
  "processAssets exampleHost (constructor (Some throwingOptions))
       (discovery (constructor None) exampleEvents) \<lparr> assets = [], errors = [] \<rparr>
     = (None,
        \<lparr> assets = [(''embedded-dependencies.json'', ''bar@2.0.0,foo@1.0.0'')],
          errors = [''[embedded-dependencies-webpack-plugin]: ''
                     @ ''Failed to generate license file: bad template'' @ [CHR 0x0A]
                     @ ''Error: bad template''] \<rparr>)
   \<and> sublist ''Failed to generate license file''
        (''[embedded-dependencies-webpack-plugin]: ''
           @ ''Failed to generate license file: bad template'' @ [CHR 0x0A]
           @ ''Error: bad template'')
   \<and> sublist ''bad template''
        (''[embedded-dependencies-webpack-plugin]: ''
           @ ''Failed to generate license file: bad template'' @ [CHR 0x0A]
           @ ''Error: bad template'')"
proof -
  have enabled: "this_generateLicenseFile (constructor (Some throwingOptions))"
    by (simp add: constructor_def throwingOptions_def)
  have throws: "this_generateLicenseFileFunction (constructor (Some throwingOptions))
      (sortBy (snd (enrichment exampleHost (discovery (constructor None) exampleEvents))) name)
      = Inl (ThrownError ''bad template'' (Some ''Error: bad template''))"
    by (simp add: constructor_def throwingOptions_def)
  have "fst (enrichment exampleHost (discovery (constructor None) exampleEvents)) = None"
    by (simp add: example_defs plugin_defs Let_def)
  then have handled: "case fst (enrichment exampleHost (discovery (constructor None) exampleEvents)) of
           None \<Rightarrow> [] = []
         | Some e0 \<Rightarrow>
             emittedError ''Failed to process embedded dependencies'' e0 = Inr undefined
             \<and> [] = [undefined]"
    by simp
  have built: "emittedError ''Failed to generate license file''
        (ThrownError ''bad template'' (Some ''Error: bad template''))
      = Inr (''[embedded-dependencies-webpack-plugin]: ''
           @ ''Failed to generate license file: bad template'' @ [CHR 0x0A]
           @ ''Error: bad template'')"
    by (simp add: plugin_defs)
  have run: "processAssets exampleHost (constructor (Some throwingOptions))
       (discovery (constructor None) exampleEvents) \<lparr> assets = [], errors = [] \<rparr>
     = (None,
        \<lparr> assets = [(''embedded-dependencies.json'', ''bar@2.0.0,foo@1.0.0'')],
          errors = [''[embedded-dependencies-webpack-plugin]: ''
                     @ ''Failed to generate license file: bad template'' @ [CHR 0x0A]
                     @ ''Error: bad template''] \<rparr>)"
    by (simp add: example_defs plugin_defs Let_def)
  from template_failure_reported [OF enabled throws handled, of "\<lparr> assets = [], errors = [] \<rparr>"]
    built run
  show ?thesis by auto
qed

text \<open>
  C6 fails on the code for a thrown value that \<^verbatim>\<open>JSON.stringify\<close> cannot render. With
  \<^verbatim>\<open>generateLicenseFile: true\<close> and a template function that throws a \<^verbatim>\<open>BigInt\<close>, the inventory
  asset is emitted and no license asset is, but no build error is recorded: the handler
  itself throws, and the hook rejects with the \<^verbatim>\<open>TypeError\<close> of \<^verbatim>\<open>JSON.stringify\<close>.
\<close>

theorem template_throws_bigint_nothing_reported:
  "processAssets exampleHost (constructor (Some bigintThrowingOptions))
       (discovery (constructor None) exampleEvents) \<lparr> assets = [], errors = [] \<rparr>
     = (Some (ThrownError ''Do not know how to serialize a BigInt'' None),
        \<lparr> assets = [(''embedded-dependencies.json'', ''bar@2.0.0,foo@1.0.0'')],
          errors = [] \<rparr>)"
  by (simp add: example_defs plugin_defs Let_def)

text \<open>
  C10. Options are defaulted by truthiness. A supplied name that is not the empty string
  is kept, and so are a supplied \<^verbatim>\<open>generateLicenseFile: true\<close>, a supplied template function
  and a supplied predicate; an empty-string \<^verbatim>\<open>outputFileName\<close> gives
  \<^verbatim>\<open>embedded-dependencies.json\<close>, an empty-string \<^verbatim>\<open>generatedLicenseFilename\<close> gives
  \<^verbatim>\<open>THIRD-PARTY-NOTICES.html\<close>, \<^verbatim>\<open>generateLicenseFile: false\<close> builds the same plugin as
  leaving the option out, and absent options give the defaults. Hence neither artifact
  name of any plugin instance is the empty string, and no asset the plugin emits has an
  empty name.
\<close>

theorem constructor_defaults_by_truthiness:
  "this_outputFileName (constructor (Some opts)) =
     (if truthy (outputFileName opts) then the (outputFileName opts)
      else ''embedded-dependencies.json'')
   \<and> this_generatedLicenseFilename (constructor (Some opts)) =
     (if truthy (generatedLicenseFilename opts) then the (generatedLicenseFilename opts)
      else ''THIRD-PARTY-NOTICES.html'')
   \<and> this_generateLicenseFile (constructor (Some opts)) = (generateLicenseFile opts = Some True)
   \<and> this_generateLicenseFileFunction (constructor (Some opts)) =
     (case generateLicenseFileFunction opts of
        Some template \<Rightarrow> template
      | None \<Rightarrow> defaultLicenseFileGenerator)
   \<and> this_packageFilterFunction (constructor (Some opts)) =
     (case packageFilterPredicate opts of
        Some predicate \<Rightarrow> predicate
      | None \<Rightarrow> DEFAULT_PACKAGE_FILTER_FUNCTION)
   \<and> this_outputFileName (constructor (Some (opts\<lparr> outputFileName := Some [] \<rparr>)))
     = ''embedded-dependencies.json''
   \<and> this_generatedLicenseFilename
        (constructor (Some (opts\<lparr> generatedLicenseFilename := Some [] \<rparr>)))
     = ''THIRD-PARTY-NOTICES.html''
   \<and> constructor (Some (opts\<lparr> generateLicenseFile := Some False \<rparr>))
     = constructor (Some (opts\<lparr> generateLicenseFile := None \<rparr>))
   \<and> this_outputFileName (constructor None) = ''embedded-dependencies.json''
   \<and> this_generatedLicenseFilename (constructor None) = ''THIRD-PARTY-NOTICES.html''
   \<and> this_generateLicenseFile (constructor None) = False
   \<and> this_generateLicenseFileFunction (constructor None) = defaultLicenseFileGenerator
   \<and> this_packageFilterFunction (constructor None) = DEFAULT_PACKAGE_FILTER_FUNCTION
   \<and> this_outputFileName (constructor optional) \<noteq> []
   \<and> this_generatedLicenseFilename (constructor optional) \<noteq> []
   \<and> list_all (\<lambda>asset. fst asset \<noteq> [])
        (assets (snd (processAssets h (constructor optional) table
           \<lparr> assets = [], errors = [] \<rparr>)))"
proof -
  have names: "list_all (\<lambda>asset. fst asset \<noteq> [])
        (assets (snd (processAssets h (constructor optional) table
           \<lparr> assets = [], errors = [] \<rparr>)))"
    by (rule asset_names_processAssets)
       (rule constructor_outputFileName_nonempty constructor_generatedLicenseFilename_nonempty)+
  have supplied:
    "this_outputFileName (constructor (Some opts)) =
       (if truthy (outputFileName opts) then the (outputFileName opts)
        else ''embedded-dependencies.json'')"
    "this_generatedLicenseFilename (constructor (Some opts)) =
       (if truthy (generatedLicenseFilename opts) then the (generatedLicenseFilename opts)
        else ''THIRD-PARTY-NOTICES.html'')"
    by (cases "outputFileName opts"; cases "generatedLicenseFilename opts";
        simp add: constructor_def or_default_def DEFAULT_EMBEDDED_DEPENDENCIES_FILE_NAME_def
          DEFAULT_GENERATED_LICENSE_FILE_NAME_def)+
  have flagged:
    "this_generateLicenseFile (constructor (Some opts)) = (generateLicenseFile opts = Some True)"
    by (cases "generateLicenseFile opts") (auto simp: constructor_def)
  have callbacks:
    "this_generateLicenseFileFunction (constructor (Some opts)) =
       (case generateLicenseFileFunction opts of
          Some template \<Rightarrow> template
        | None \<Rightarrow> defaultLicenseFileGenerator)"
    "this_packageFilterFunction (constructor (Some opts)) =
       (case packageFilterPredicate opts of
          Some predicate \<Rightarrow> predicate
        | None \<Rightarrow> DEFAULT_PACKAGE_FILTER_FUNCTION)"
    by (simp_all add: constructor_def)
  have flag: "constructor (Some (opts\<lparr> generateLicenseFile := Some False \<rparr>))
     = constructor (Some (opts\<lparr> generateLicenseFile := None \<rparr>))"
    by (simp add: constructor_def)
  have defaults: "this_outputFileName (constructor None) = ''embedded-dependencies.json''"
    "this_generatedLicenseFilename (constructor None) = ''THIRD-PARTY-NOTICES.html''"
    "this_generateLicenseFile (constructor None) = False"
    "this_generateLicenseFileFunction (constructor None) = defaultLicenseFileGenerator"
    "this_packageFilterFunction (constructor None) = DEFAULT_PACKAGE_FILTER_FUNCTION"
    by (simp_all add: constructor_def or_default_def DEFAULT_EMBEDDED_DEPENDENCIES_FILE_NAME_def
        DEFAULT_GENERATED_LICENSE_FILE_NAME_def)
  have empties:
    "this_outputFileName (constructor (Some (opts\<lparr> outputFileName := Some [] \<rparr>)))
       = ''embedded-dependencies.json''"
    "this_generatedLicenseFilename
        (constructor (Some (opts\<lparr> generatedLicenseFilename := Some [] \<rparr>)))
       = ''THIRD-PARTY-NOTICES.html''"
    by (simp_all add: constructor_def or_default_def DEFAULT_EMBEDDED_DEPENDENCIES_FILE_NAME_def
        DEFAULT_GENERATED_LICENSE_FILE_NAME_def)
  show ?thesis
    using names supplied flagged callbacks flag defaults empties
      constructor_outputFileName_nonempty [of optional]
      constructor_generatedLicenseFilename_nonempty [of optional]
    by simp
qed

text \<open>
  The constructor on options that name both artifacts and enable the license file, and
  on options that are all supplied and all falsy.
\<close>

theorem constructor_defaults_by_truthiness_witness:
  "this_outputFileName (constructor (Some namedOptions)) = ''deps.json''
   \<and> this_generatedLicenseFilename (constructor (Some namedOptions)) = ''NOTICES.md''
   \<and> this_generateLicenseFile (constructor (Some namedOptions)) = True
   \<and> processAssets exampleHost (constructor (Some namedOptions)) [] \<lparr> assets = [], errors = [] \<rparr>
       = (None, \<lparr> assets = [(''deps.json'', []), (''NOTICES.md'', [])], errors = [] \<rparr>)
   \<and> constructor (Some \<lparr> outputFileName = Some [], generateLicenseFile = Some False,
       generateLicenseFileFunction = None, generatedLicenseFilename = Some [],
       packageFilterPredicate = None \<rparr>) = constructor None
   \<and> this_outputFileName (constructor None) = ''embedded-dependencies.json''
   \<and> this_generatedLicenseFilename (constructor None) = ''THIRD-PARTY-NOTICES.html''"
proof -
  have named: "this_outputFileName (constructor (Some namedOptions)) = ''deps.json''"
    "this_generatedLicenseFilename (constructor (Some namedOptions)) = ''NOTICES.md''"
    "this_generateLicenseFile (constructor (Some namedOptions)) = True"
    using constructor_defaults_by_truthiness [where opts = namedOptions]
    by (simp_all add: namedOptions_def)
  have run: "processAssets exampleHost (constructor (Some namedOptions)) []
        \<lparr> assets = [], errors = [] \<rparr>
       = (None, \<lparr> assets = [(''deps.json'', []), (''NOTICES.md'', [])], errors = [] \<rparr>)"
    by (simp add: example_defs plugin_defs defaultLicenseFileGenerator_def Let_def)
  have falsy: "constructor (Some \<lparr> outputFileName = Some [], generateLicenseFile = Some False,
       generateLicenseFileFunction = None, generatedLicenseFilename = Some [],
       packageFilterPredicate = None \<rparr>) = constructor None"
    by (simp add: constructor_def or_default_def)
  from named run falsy show ?thesis
    using constructor_defaults_by_truthiness [where optional = None]
    by simp
qed

end
